theory Spec2Isabelle
  imports Main
begin

section \<open>Python strings\<close>

text \<open>
  A Python \<^verbatim>\<open>str\<close> is a sequence of Unicode code points, so a string is modelled as
  a list of code points (natural numbers).  \<open>str\<close> turns an Isabelle literal into
  such a list; the literals of the source are all ASCII.
\<close>

type_synonym pystr = "nat list"

definition str :: "string \<Rightarrow> pystr" where
  "str s = map of_char s"

text \<open>
  The characters for which \<^verbatim>\<open>str.isspace\<close> holds; they are the ones that
  \<^verbatim>\<open>str.split()\<close> and \<^verbatim>\<open>str.strip()\<close> (both without argument) treat as
  white space: U+0009..U+000D, U+001C..U+0020, U+0085, U+00A0, U+1680,
  U+2000..U+200A, U+2028, U+2029, U+202F, U+205F and U+3000.
\<close>

definition py_isspace :: "nat \<Rightarrow> bool" where
  "py_isspace c \<longleftrightarrow>
     (9 \<le> c \<and> c \<le> 13) \<or> (28 \<le> c \<and> c \<le> 32) \<or> c = 133 \<or> c = 160 \<or> c = 5760 \<or>
     (8192 \<le> c \<and> c \<le> 8202) \<or> c = 8232 \<or> c = 8233 \<or> c = 8239 \<or> c = 8287 \<or>
     c = 12288"

text \<open>\<^verbatim>\<open>text.split()\<close>: the maximal runs of characters that are not white space.
  The first argument is the word read so far.\<close>

fun split_words :: "pystr \<Rightarrow> pystr \<Rightarrow> pystr list" where
  "split_words w [] = (if w = [] then [] else [w])"
| "split_words w (c # cs) =
     (if py_isspace c then (if w = [] then split_words [] cs else w # split_words [] cs)
      else split_words (w @ [c]) cs)"

definition py_split :: "pystr \<Rightarrow> pystr list" where
  "py_split text = split_words [] text"

text \<open>\<^verbatim>\<open>text.split(sep)\<close> for a separator of one character: empty pieces are kept.\<close>

fun split_sep :: "nat \<Rightarrow> pystr \<Rightarrow> pystr \<Rightarrow> pystr list" where
  "split_sep sep w [] = [w]"
| "split_sep sep w (c # cs) =
     (if c = sep then w # split_sep sep [] cs else split_sep sep (w @ [c]) cs)"

definition py_lines :: "pystr \<Rightarrow> pystr list" where
  "py_lines text = split_sep 10 [] text"

text \<open>\<^verbatim>\<open>text.split(sep, 1)\<close>: at most one cut, at the first separator.\<close>

definition split_once :: "nat \<Rightarrow> pystr \<Rightarrow> pystr list" where
  "split_once sep s =
     (if sep \<in> set s
      then [takeWhile (\<lambda>c. c \<noteq> sep) s, tl (dropWhile (\<lambda>c. c \<noteq> sep) s)]
      else [s])"

definition py_strip :: "pystr \<Rightarrow> pystr" where
  "py_strip s = rev (dropWhile py_isspace (rev (dropWhile py_isspace s)))"

definition startswith :: "pystr \<Rightarrow> pystr \<Rightarrow> bool" where
  "startswith s p \<longleftrightarrow> take (length p) s = p"

text \<open>\<^verbatim>\<open>sep.join(xs)\<close>.\<close>

fun py_join :: "pystr \<Rightarrow> pystr list \<Rightarrow> pystr" where
  "py_join sep [] = []"
| "py_join sep [x] = x"
| "py_join sep (x # y # ys) = x @ sep @ py_join sep (y # ys)"

section \<open>Dialogue wrapping (GenerateComicAgentic.add\_line\_breaks)\<close>

text \<open>
  \<^verbatim>\<open>
  words = text.split()
  new_text = ''
  for i, word in enumerate(words):
      new_text += word
      if (i+1) % 7 == 0: new_text += '\n'
      else:              new_text += ' '
  return new_text
  \<close>
  The handler for \<^verbatim>\<open>AttributeError\<close> is for an argument that is not a string; the
  argument of the model is a string, so that branch has no counterpart.
\<close>

fun add_line_breaks_loop :: "nat \<Rightarrow> pystr list \<Rightarrow> pystr \<Rightarrow> pystr" where
  "add_line_breaks_loop i [] new_text = new_text"
| "add_line_breaks_loop i (word # words) new_text =
     add_line_breaks_loop (i + 1) words
       (new_text @ word @ (if (i + 1) mod 7 = 0 then [10] else [32]))"

definition add_line_breaks :: "pystr \<Rightarrow> pystr" where
  "add_line_breaks text = add_line_breaks_loop 0 (py_split text) []"

section \<open>Scenes and the script parser (ContentIntelligenceAgent)\<close>

record dialogue_item =
  character :: pystr
  dialogue :: pystr

record scene =
  scene_number :: int
  dialogues :: "dialogue_item list"

text \<open>
  One iteration of the loop of \<^verbatim>\<open>_parse_educational_content\<close>; the state is the
  pair of \<^verbatim>\<open>scenes\<close> and \<^verbatim>\<open>current_scene\<close> (\<open>None\<close> before the first
  scene marker).  A scene dictionary always has its two keys, so the test
  \<^verbatim>\<open>if current_scene:\<close> succeeds exactly when a scene is open.
\<close>

definition parse_line :: "scene list \<times> scene option \<Rightarrow> pystr \<Rightarrow> scene list \<times> scene option" where
  "parse_line st raw =
     (let line = py_strip raw; scenes = fst st; current_scene = snd st in
      if startswith line (str ''SCENE'') then
        (let scenes' = (case current_scene of Some c \<Rightarrow> scenes @ [c] | None \<Rightarrow> scenes) in
         (scenes', Some \<lparr>scene_number = int (length scenes') + 1, dialogues = []\<rparr>))
      else if 58 \<in> set line \<and> current_scene \<noteq> None then
        (if \<not> startswith line (str ''CHARACTERS:'') \<and>
            \<not> startswith line (str ''EDUCATIONAL_SUMMARY:'') then
           (let parts = split_once 58 line in
            if length parts = 2 then
              (scenes,
               map_option (\<lambda>c. c\<lparr>dialogues := dialogues c @
                  [\<lparr>character = py_strip (parts ! 0), dialogue = py_strip (parts ! 1)\<rparr>]\<rparr>)
                 current_scene)
            else st)
         else st)
      else st)"

definition parse_educational_content :: "pystr \<Rightarrow> scene list" where
  "parse_educational_content content =
     (let st = foldl parse_line ([], None) (py_lines content) in
      case snd st of Some c \<Rightarrow> fst st @ [c] | None \<Rightarrow> fst st)"

definition is_scene_marker :: "pystr \<Rightarrow> bool" where
  "is_scene_marker raw \<longleftrightarrow> startswith (py_strip raw) (str ''SCENE'')"

text \<open>The invariant of the parser loop, and the number of scenes opened so far.\<close>
definition parse_inv :: "scene list \<times> scene option \<Rightarrow> bool" where
  "parse_inv st \<longleftrightarrow>
     map scene_number (fst st) = map int [1..<Suc (length (fst st))] \<and>
     (case snd st of None \<Rightarrow> True | Some c \<Rightarrow> scene_number c = int (length (fst st)) + 1)"

definition opened :: "scene list \<times> scene option \<Rightarrow> nat" where
  "opened st = length (fst st) + (case snd st of None \<Rightarrow> 0 | Some c \<Rightarrow> 1)"

section \<open>Exceptions, the world and the backends\<close>

text \<open>
  Every exception of the source is an \<^verbatim>\<open>Exception\<close> that is only ever caught by
  \<^verbatim>\<open>except Exception\<close> and read through \<^verbatim>\<open>str(e)\<close>; it is modelled by its
  message.
\<close>

datatype exn = Exn pystr

fun message :: "exn \<Rightarrow> pystr" where
  "message (Exn m) = m"

text \<open>The text that an f-string puts for a value that may be \<^verbatim>\<open>None\<close>.\<close>

definition py_str_opt :: "pystr option \<Rightarrow> pystr" where
  "py_str_opt x = (case x of None \<Rightarrow> str ''None'' | Some s \<Rightarrow> s)"

text \<open>
  The tables of the datastore (database.py) that the workflow writes:
  \<^verbatim>\<open>comic_generations\<close>, \<^verbatim>\<open>agent_logs\<close> and \<^verbatim>\<open>educational_content\<close>.
  The columns \<^verbatim>\<open>input_data\<close> and \<^verbatim>\<open>output_data\<close> of a log row (JSON text cut
  at 1000 characters) and the embedding of a content row are not represented.
\<close>

datatype status = Pending | Processing | Completed | Failed

record generation_record =
  gr_id :: nat
  gr_user_id :: pystr
  gr_topic :: "pystr option"
  gr_comic_style :: pystr
  gr_language :: pystr
  gr_status :: status
  gr_output_path :: "pystr option"
  gr_generation_time_seconds :: "int option"
  gr_completed_at :: bool

datatype log_status = LogSuccess | LogError

record agent_log_entry =
  al_generation_id :: nat
  al_agent_name :: pystr
  al_step_number :: int
  al_execution_time_ms :: int
  al_status :: log_status
  al_error_message :: "pystr option"

record content_row =
  ec_topic :: "pystr option"
  ec_content :: pystr
  ec_content_type :: pystr
  ec_age_group :: pystr

text \<open>
  The state that the program changes.  \<open>ticks\<close> counts the calls made to the
  backends so far.  \<open>trace\<close> lists, in order, the \<^verbatim>\<open>execute\<close> methods that were
  entered (agent name and step number) and those that returned an AgentResult (with
  its \<^verbatim>\<open>success\<close> flag); \<open>pdf_requests\<close> lists the calls of
  \<^verbatim>\<open>convert_images_to_pdf\<close>.  Both are records of what happened that the program
  never reads.  \<open>generated_images_paths\<close> is the dictionary of the rendering driver,
  in insertion order; \<open>documents\<close> are the PDF files written.
\<close>

datatype event = Entered pystr int | Returned pystr int bool

record world =
  ticks :: nat
  comic_generations :: "generation_record list"
  agent_logs :: "agent_log_entry list"
  stored_content :: "content_row list"
  trace :: "event list"
  generated_images_paths :: "(int \<times> pystr option) list"
  pdf_requests :: "(pystr \<times> pystr list) list"
  documents :: "(pystr \<times> pystr list) list"

datatype db_op =
    LogComicGeneration
  | UpdateComicGenerationStatus status
  | LogAgentExecution
  | StoreEducationalContent

record character_entry =
  ce_name :: pystr
  ce_personality :: "pystr option"
  ce_role :: pystr

text \<open>
  The behaviour of the collaborators: the text backend (the methods of
  \<^verbatim>\<open>GeminiFlashClient\<close>), the queries of the datastore, the image backend and the
  imaging library, the clock and the thread pool.  Every call gets the current value of
  \<open>ticks\<close> as its first argument, so that a backend may answer the same request
  differently at different times; a call either raises (\<open>Inl\<close>) or returns.  The
  prompts sent to the text backend are f-strings over the arguments listed here; the
  arguments stand for them.  The statements of the datastore that write
  (\<^verbatim>\<open>INSERT\<close>, \<^verbatim>\<open>UPDATE\<close>) either raise, as \<open>db_fault\<close> says, or have their
  effect on the tables; the SQL text itself is not interpreted.  \<open>str_upper\<close> is
  \<^verbatim>\<open>str.upper\<close>, whose Unicode case mapping is taken as given.  \<open>pool_order\<close>
  gives, for the time and the number of tasks submitted to the thread pool, the order
  in which the tasks write their results.
\<close>

record backend =
  generate_educational_content :: "nat \<Rightarrow> pystr option \<Rightarrow> pystr \<Rightarrow> pystr \<Rightarrow> exn + pystr"
  extract_character_info :: "nat \<Rightarrow> pystr \<Rightarrow> exn + (pystr \<times> character_entry) list"
  generate_comic_poster_prompt :: "nat \<Rightarrow> pystr option \<Rightarrow> pystr \<Rightarrow> pystr list \<Rightarrow> exn + pystr"
  generate_visual_prompt :: "nat \<Rightarrow> pystr \<Rightarrow> pystr \<Rightarrow> int \<Rightarrow> pystr option \<Rightarrow> pystr \<Rightarrow> exn + pystr"
  analyze_content_quality :: "nat \<Rightarrow> pystr \<Rightarrow> pystr option \<Rightarrow> pystr \<Rightarrow> exn + pystr"
  generate_text :: "nat \<Rightarrow> pystr option \<Rightarrow> pystr \<Rightarrow> exn + pystr"
  search_similar_content :: "nat \<Rightarrow> pystr option \<Rightarrow> pystr \<Rightarrow> nat \<Rightarrow> exn + nat list"
  get_successful_comic_patterns :: "nat \<Rightarrow> nat \<Rightarrow> exn + nat list"
  search_character_templates :: "nat \<Rightarrow> pystr \<Rightarrow> pystr \<Rightarrow> nat \<Rightarrow> exn + nat list"
  db_fault :: "nat \<Rightarrow> db_op \<Rightarrow> exn option"
  time_time :: "nat \<Rightarrow> int"
  str_upper :: "pystr \<Rightarrow> pystr"
  generate_random_alpha_string :: "nat \<Rightarrow> nat \<Rightarrow> pystr"
  generate_comic_poster :: "nat \<Rightarrow> pystr \<Rightarrow> pystr \<Rightarrow> exn + pystr option"
  generate_comic_panel :: "nat \<Rightarrow> pystr \<Rightarrow> pystr \<Rightarrow> pystr \<Rightarrow> exn + pystr option"
  generate_image :: "nat \<Rightarrow> pystr \<Rightarrow> pystr \<Rightarrow> exn + pystr option"
  create_fallback_image :: "nat \<Rightarrow> pystr \<Rightarrow> pystr \<Rightarrow> exn + pystr"
  add_text_to_image :: "nat \<Rightarrow> pystr \<Rightarrow> pystr \<Rightarrow> pystr \<Rightarrow> exn option"
  pdf_fault :: "nat \<Rightarrow> pystr list \<Rightarrow> pystr \<Rightarrow> exn option"
  pool_order :: "nat \<Rightarrow> nat \<Rightarrow> nat list"

text \<open>
  A piece of program is a function from the world to a result and the new world; the
  result is \<open>Inl e\<close> when the exception \<open>e\<close> leaves it.  What was written before an
  exception is raised stays written.
\<close>

type_synonym ('e, 'a) action = "world \<Rightarrow> ('e + 'a) \<times> world"

definition returnE :: "'a \<Rightarrow> ('e, 'a) action" where
  "returnE x w = (Inr x, w)"

definition raiseE :: "'e \<Rightarrow> ('e, 'a) action" where
  "raiseE e w = (Inl e, w)"

definition bindE :: "('e, 'a) action \<Rightarrow> ('a \<Rightarrow> ('e, 'b) action) \<Rightarrow> ('e, 'b) action" where
  "bindE m f w = (case m w of (Inl e, w') \<Rightarrow> (Inl e, w') | (Inr x, w') \<Rightarrow> f x w')"

definition catchE :: "('e, 'a) action \<Rightarrow> ('e \<Rightarrow> ('d, 'a) action) \<Rightarrow> ('d, 'a) action" where
  "catchE m h w = (case m w of (Inl e, w') \<Rightarrow> h e w' | (Inr x, w') \<Rightarrow> (Inr x, w'))"

text \<open>A call to a backend, the clock, and a writing statement of the datastore.\<close>

definition tick :: "world \<Rightarrow> world" where
  "tick w = w\<lparr>ticks := Suc (ticks w)\<rparr>"

definition ask :: "(nat \<Rightarrow> 'e + 'a) \<Rightarrow> ('e, 'a) action" where
  "ask f w = (f (ticks w), tick w)"

definition now :: "backend \<Rightarrow> ('e, int) action" where
  "now env w = (Inr (time_time env (ticks w)), tick w)"

definition db_write :: "backend \<Rightarrow> db_op \<Rightarrow> (world \<Rightarrow> 'a \<times> world) \<Rightarrow> (exn, 'a) action" where
  "db_write env op effect w =
     (case db_fault env (ticks w) op of
        Some e \<Rightarrow> (Inl e, tick w)
      | None \<Rightarrow> (case effect (tick w) of (x, w') \<Rightarrow> (Inr x, w')))"

section \<open>Agents (agents.py)\<close>

subsection \<open>AgentResult and the inputs\<close>

record 'a agent_result =
  success :: bool
  data :: "'a option"
  execution_time_ms :: int
  error_message :: "pystr option"
  step_number :: int

text \<open>
  The input dictionary of an agent.  Every key is read with \<^verbatim>\<open>.get\<close>, so every
  field may be absent.  The request of the caller fills the first five fields; the
  orchestrator adds the payload of the Content Intelligence Agent
  (\<^verbatim>\<open>{**user_input, **content_result.data}\<close>), of which the agents read the three
  last fields.
\<close>

record agent_input =
  in_topic :: "pystr option"
  in_visual_style :: "pystr option"
  in_age_group :: "pystr option"
  in_language :: "pystr option"
  in_user_id :: "pystr option"
  in_educational_content :: "pystr option"
  in_characters :: "(pystr \<times> character_entry) list option"
  in_scenes :: "scene list option"

text \<open>\<^verbatim>\<open>d.get(key, default)\<close>.\<close>

definition get_or :: "'a option \<Rightarrow> 'a \<Rightarrow> 'a" where
  "get_or x d = (case x of None \<Rightarrow> d | Some v \<Rightarrow> v)"

subsection \<open>BaseAgent: logging, and the frame shared by the four execute methods\<close>

definition log_agent_execution :: "backend \<Rightarrow> agent_log_entry \<Rightarrow> (exn, unit) action" where
  "log_agent_execution env entry =
     db_write env LogAgentExecution (\<lambda>w. ((), w\<lparr>agent_logs := agent_logs w @ [entry]\<rparr>))"

definition log_entry :: "pystr \<Rightarrow> nat \<Rightarrow> int \<Rightarrow> 'a agent_result \<Rightarrow> agent_log_entry" where
  "log_entry name generation_id step result =
     \<lparr>al_generation_id = generation_id, al_agent_name = name, al_step_number = step,
      al_execution_time_ms = execution_time_ms result,
      al_status = (if success result then LogSuccess else LogError),
      al_error_message = error_message result\<rparr>"

definition log_execution ::
  "backend \<Rightarrow> pystr \<Rightarrow> nat \<Rightarrow> int \<Rightarrow> 'a agent_result \<Rightarrow> (exn, unit) action" where
  "log_execution env name generation_id step result =
     log_agent_execution env (log_entry name generation_id step result)"

definition enter :: "pystr \<Rightarrow> int \<Rightarrow> (exn, unit) action" where
  "enter name step w = (Inr (), w\<lparr>trace := trace w @ [Entered name step]\<rparr>)"

definition leave :: "pystr \<Rightarrow> int \<Rightarrow> 'a agent_result \<Rightarrow> (exn, unit) action" where
  "leave name step result w =
     (Inr (), w\<lparr>trace := trace w @ [Returned name step (success result)]\<rparr>)"

text \<open>
  The four \<^verbatim>\<open>execute\<close> methods have the same frame around their own
  \<^verbatim>\<open>try\<close> block:
  \<^verbatim>\<open>
  start_time = time.time()
  try:
      ...                                   # try_block: ends by computing the payload
      execution_time = int((time.time() - start_time) * 1000)
      result = AgentResult(success=True, data=result_data, ...)
      ...                                   # after_result
  except Exception as e:
      execution_time = int((time.time() - start_time) * 1000)
      result = AgentResult(success=False, data=None, error_message=str(e), ...)
  self.log_execution(generation_id, step_number, input_data, result)
  return result
  \<close>
  \<open>after_result\<close> is what the \<^verbatim>\<open>try\<close> block does after it has built its
  result (nothing, for three of the agents).  The clock is read in milliseconds.
  \<open>agent_try\<close> is the \<^verbatim>\<open>try\<close> statement; the call of \<^verbatim>\<open>log_execution\<close>
  stands after it.
\<close>

definition agent_try ::
  "backend \<Rightarrow> (exn, 'a) action \<Rightarrow> ('a \<Rightarrow> (exn, unit) action) \<Rightarrow> int \<Rightarrow> int \<Rightarrow>
   (exn, 'a agent_result) action" where
  "agent_try env try_block after_result start_time step =
     catchE
       (bindE try_block (\<lambda>result_data.
        bindE (now env) (\<lambda>t.
        bindE (after_result result_data) (\<lambda>_.
        returnE \<lparr>success = True, data = Some result_data,
                 execution_time_ms = t - start_time, error_message = None,
                 step_number = step\<rparr>))))
       (\<lambda>e.
        bindE (now env) (\<lambda>t.
        returnE \<lparr>success = False, data = None,
                 execution_time_ms = t - start_time, error_message = Some (message e),
                 step_number = step\<rparr>))"

definition agent_execute ::
  "backend \<Rightarrow> pystr \<Rightarrow> (exn, 'a) action \<Rightarrow> ('a \<Rightarrow> (exn, unit) action) \<Rightarrow> nat \<Rightarrow> int \<Rightarrow>
   (exn, 'a agent_result) action" where
  "agent_execute env name try_block after_result generation_id step =
     bindE (enter name step) (\<lambda>_.
     bindE (now env) (\<lambda>start_time.
     bindE (agent_try env try_block after_result start_time step) (\<lambda>result.
     bindE (log_execution env name generation_id step result) (\<lambda>_.
     bindE (leave name step result) (\<lambda>_.
     returnE result)))))"

subsection \<open>ContentIntelligenceAgent\<close>

record content_analysis =
  ca_topic :: "pystr option"
  ca_age_group :: pystr
  ca_language :: pystr
  ca_scene_count :: nat
  ca_character_count :: nat

record content_data =
  educational_content :: pystr
  characters :: "(pystr \<times> character_entry) list"
  scenes :: "scene list"
  similar_content_found :: nat
  successful_patterns :: nat
  content_analysis :: content_analysis

definition store_educational_content ::
  "backend \<Rightarrow> pystr option \<Rightarrow> pystr \<Rightarrow> pystr \<Rightarrow> pystr \<Rightarrow> (exn, unit) action" where
  "store_educational_content env topic content content_type age_group =
     db_write env StoreEducationalContent
       (\<lambda>w. ((), w\<lparr>stored_content := stored_content w @
           [\<lparr>ec_topic = topic, ec_content = content, ec_content_type = content_type,
             ec_age_group = age_group\<rparr>]\<rparr>))"

text \<open>Steps 1 to 5 of the \<^verbatim>\<open>try\<close> block of \<^verbatim>\<open>ContentIntelligenceAgent.execute\<close>.\<close>

definition content_try :: "backend \<Rightarrow> agent_input \<Rightarrow> (exn, content_data) action" where
  "content_try env input_data =
     (let topic = in_topic input_data;
          age_group = get_or (in_age_group input_data) (str ''child'');
          language = get_or (in_language input_data) (str ''en'') in
      bindE (ask (\<lambda>t. search_similar_content env t topic (str ''comic'') 3))
        (\<lambda>similar_content.
      bindE (ask (\<lambda>t. get_successful_comic_patterns env t 5)) (\<lambda>successful_patterns.
      bindE (ask (\<lambda>t. generate_educational_content env t topic age_group language))
        (\<lambda>educational_content.
      bindE (ask (\<lambda>t. extract_character_info env t educational_content)) (\<lambda>characters.
      let scenes = parse_educational_content educational_content in
      returnE
        \<lparr>educational_content = educational_content, characters = characters,
         scenes = scenes, similar_content_found = length similar_content,
         successful_patterns = length successful_patterns,
         content_analysis =
           \<lparr>ca_topic = topic, ca_age_group = age_group, ca_language = language,
            ca_scene_count = length scenes, ca_character_count = length characters\<rparr>\<rparr>)))))"

text \<open>
  The call that stores the script stands inside the \<^verbatim>\<open>try\<close> block, after the
  result has been built; it reads the script from the text backend's answer.
\<close>

definition content_store :: "backend \<Rightarrow> agent_input \<Rightarrow> content_data \<Rightarrow> (exn, unit) action" where
  "content_store env input_data result_data =
     store_educational_content env (in_topic input_data) (educational_content result_data)
       (str ''comic'') (get_or (in_age_group input_data) (str ''child''))"

definition content_agent_name :: pystr where
  "content_agent_name = str ''ContentIntelligenceAgent''"

definition content_execute ::
  "backend \<Rightarrow> agent_input \<Rightarrow> nat \<Rightarrow> int \<Rightarrow> (exn, content_data agent_result) action" where
  "content_execute env input_data generation_id step =
     agent_execute env content_agent_name (content_try env input_data)
       (content_store env input_data) generation_id step"

subsection \<open>EducationalPlanningAgent\<close>

text \<open>\<^verbatim>\<open>s.strip(chars)\<close>.\<close>

definition strip_chars :: "pystr \<Rightarrow> pystr \<Rightarrow> pystr" where
  "strip_chars chars s =
     rev (dropWhile (\<lambda>c. c \<in> set chars) (rev (dropWhile (\<lambda>c. c \<in> set chars) s)))"

record curriculum_alignment =
  score_tenths :: nat
  aligned_standards :: nat
  coverage_areas :: "pystr list"
  gaps :: "pystr list"

record planning_summary =
  ps_topic :: "pystr option"
  ps_age_group :: pystr
  alignment_score_tenths :: nat
  objectives_count :: nat

record planning_data =
  learning_objectives :: "pystr list"
  curriculum_alignment :: curriculum_alignment
  curriculum_references :: nat
  planning_summary :: planning_summary

definition parse_objectives :: "pystr \<Rightarrow> pystr list" where
  "parse_objectives response =
     map (\<lambda>line. py_strip (strip_chars (str ''- '') line))
       (filter (\<lambda>line. startswith (py_strip line) (str ''-'')) (py_lines response))"

definition generate_learning_objectives ::
  "backend \<Rightarrow> pystr option \<Rightarrow> pystr \<Rightarrow> (exn, pystr list) action" where
  "generate_learning_objectives env topic age_group =
     bindE (ask (\<lambda>t. generate_text env t topic age_group)) (\<lambda>response.
     returnE (parse_objectives response))"

text \<open>The score 8.5 of the source is kept in tenths.\<close>

definition analyze_curriculum_alignment :: "pystr \<Rightarrow> nat list \<Rightarrow> curriculum_alignment" where
  "analyze_curriculum_alignment content curriculum_refs =
     \<lparr>score_tenths = 85, aligned_standards = length curriculum_refs,
      coverage_areas = [str ''comprehension'', str ''critical thinking'',
                        str ''knowledge application''],
      gaps = []\<rparr>"

definition planning_try :: "backend \<Rightarrow> agent_input \<Rightarrow> (exn, planning_data) action" where
  "planning_try env input_data =
     (let topic = in_topic input_data;
          age_group = get_or (in_age_group input_data) (str ''child'');
          educational_content = get_or (in_educational_content input_data) [] in
      bindE (ask (\<lambda>t. search_similar_content env t
                (Some (py_str_opt topic @ str '' curriculum '' @ age_group))
                (str ''curriculum'') 3)) (\<lambda>curriculum_content.
      bindE (generate_learning_objectives env topic age_group) (\<lambda>learning_objectives.
      let alignment_analysis =
            analyze_curriculum_alignment educational_content curriculum_content in
      returnE
        \<lparr>learning_objectives = learning_objectives,
         curriculum_alignment = alignment_analysis,
         curriculum_references = length curriculum_content,
         planning_summary =
           \<lparr>ps_topic = topic, ps_age_group = age_group,
            alignment_score_tenths = score_tenths alignment_analysis,
            objectives_count = length learning_objectives\<rparr>\<rparr>)))"

definition planning_agent_name :: pystr where
  "planning_agent_name = str ''EducationalPlanningAgent''"

definition planning_execute ::
  "backend \<Rightarrow> agent_input \<Rightarrow> nat \<Rightarrow> int \<Rightarrow> (exn, planning_data agent_result) action" where
  "planning_execute env input_data generation_id step =
     agent_execute env planning_agent_name (planning_try env input_data)
       (\<lambda>_. returnE ()) generation_id step"

subsection \<open>VisualGenerationAgent\<close>

text \<open>
  A visual prompt is a dictionary with the key \<^verbatim>\<open>type\<close>; a poster prompt has the
  keys \<^verbatim>\<open>prompt\<close> and \<^verbatim>\<open>scene_number\<close> (always 0), a scene prompt has
  \<^verbatim>\<open>scene_number\<close>, \<^verbatim>\<open>character\<close>, \<^verbatim>\<open>dialogue\<close>, \<^verbatim>\<open>prompt\<close> and
  \<^verbatim>\<open>similar_templates\<close>.
\<close>

datatype visual_prompt =
    PosterPrompt pystr
  | ScenePrompt int pystr pystr pystr nat


fun vp_scene_number :: "visual_prompt \<Rightarrow> int" where
  "vp_scene_number (PosterPrompt p) = 0"
| "vp_scene_number (ScenePrompt n c d p k) = n"


record visual_data =
  visual_prompts :: "visual_prompt list"
  total_prompts :: nat
  poster_prompt :: pystr
  characters_processed :: nat
  scenes_processed :: nat

text \<open>
  The inner loop over the dialogue lines of one scene and the outer loop over the
  scenes; the last argument is \<^verbatim>\<open>visual_prompts\<close>.  The scene context sent to the
  text backend is an f-string over the scene number and the topic.
\<close>

fun visual_dialogues ::
  "backend \<Rightarrow> pystr \<Rightarrow> pystr option \<Rightarrow> int \<Rightarrow> dialogue_item list \<Rightarrow> visual_prompt list \<Rightarrow>
   (exn, visual_prompt list) action" where
  "visual_dialogues env visual_style topic n [] acc = returnE acc"
| "visual_dialogues env visual_style topic n (item # items) acc =
     bindE (ask (\<lambda>t. search_character_templates env t
               (character item @ str '' '' @ dialogue item) visual_style 2))
       (\<lambda>character_templates.
     bindE (ask (\<lambda>t. generate_visual_prompt env t (character item) (dialogue item) n topic
               visual_style)) (\<lambda>visual_prompt.
     visual_dialogues env visual_style topic n items
       (acc @ [ScenePrompt n (character item) (dialogue item) visual_prompt
                 (length character_templates)])))"

fun visual_scenes ::
  "backend \<Rightarrow> pystr \<Rightarrow> pystr option \<Rightarrow> scene list \<Rightarrow> visual_prompt list \<Rightarrow>
   (exn, visual_prompt list) action" where
  "visual_scenes env visual_style topic [] acc = returnE acc"
| "visual_scenes env visual_style topic (s # ss) acc =
     bindE (visual_dialogues env visual_style topic (scene_number s) (dialogues s) acc)
       (\<lambda>acc'. visual_scenes env visual_style topic ss acc')"

definition visual_try :: "backend \<Rightarrow> agent_input \<Rightarrow> (exn, visual_data) action" where
  "visual_try env input_data =
     (let scenes = get_or (in_scenes input_data) [];
          characters = get_or (in_characters input_data) [];
          visual_style = get_or (in_visual_style input_data) (str ''comic'');
          topic = in_topic input_data;
          character_names =
            (if characters \<noteq> [] then map fst characters
             else [str ''protagonist'', str ''supporting character'']) in
      bindE (ask (\<lambda>t. generate_comic_poster_prompt env t topic visual_style character_names))
        (\<lambda>poster_prompt.
      bindE (visual_scenes env visual_style topic scenes [PosterPrompt poster_prompt])
        (\<lambda>visual_prompts.
      returnE
        \<lparr>visual_prompts = visual_prompts, total_prompts = length visual_prompts,
         poster_prompt = poster_prompt, characters_processed = length characters,
         scenes_processed = length scenes\<rparr>)))"

definition visual_agent_name :: pystr where
  "visual_agent_name = str ''VisualGenerationAgent''"

definition visual_execute ::
  "backend \<Rightarrow> agent_input \<Rightarrow> nat \<Rightarrow> int \<Rightarrow> (exn, visual_data agent_result) action" where
  "visual_execute env input_data generation_id step =
     agent_execute env visual_agent_name (visual_try env input_data)
       (\<lambda>_. returnE ()) generation_id step"

text \<open>The prompts that the agent is to produce for a list of scenes, without their texts:
  the kind, the scene number, the character and the dialogue line.\<close>

fun prompt_key :: "visual_prompt \<Rightarrow> bool \<times> int \<times> pystr \<times> pystr" where
  "prompt_key (PosterPrompt p) = (True, 0, [], [])"
| "prompt_key (ScenePrompt n c d p k) = (False, n, c, d)"

definition scene_keys :: "scene list \<Rightarrow> (bool \<times> int \<times> pystr \<times> pystr) list" where
  "scene_keys ss =
     concat (map (\<lambda>s. map (\<lambda>item. (False, scene_number s, character item, dialogue item))
                         (dialogues s)) ss)"

subsection \<open>QualityAssuranceAgent\<close>

text \<open>\<^verbatim>\<open>p in s\<close> for strings.\<close>

fun contains :: "pystr \<Rightarrow> pystr \<Rightarrow> bool" where
  "contains [] p = (p = [])"
| "contains (c # cs) p = (startswith (c # cs) p \<or> contains cs p)"

record scene_validation =
  sv_scene_number :: int
  sv_character :: pystr
  sv_dialogue :: pystr
  sv_analysis :: pystr

record validation_summary =
  content_approved :: bool
  scenes_checked :: nat
  improvement_count :: nat

record qa_data =
  quality_analysis :: pystr
  scene_validations :: "scene_validation list"
  approval_status :: bool
  improvements_needed :: "pystr list"
  total_scenes_validated :: nat
  validation_summary :: validation_summary

definition parse_approval_status :: "backend \<Rightarrow> pystr \<Rightarrow> bool" where
  "parse_approval_status env analysis =
     contains (str_upper env analysis) (str ''APPROVAL: YES'')"

text \<open>The loop of \<^verbatim>\<open>_generate_improvements\<close>, which stops at \<^verbatim>\<open>break\<close>.\<close>

fun improvements_loop :: "backend \<Rightarrow> pystr list \<Rightarrow> bool \<Rightarrow> pystr list \<Rightarrow> pystr list" where
  "improvements_loop env [] in_improvements_section improvements = improvements"
| "improvements_loop env (line # lines) in_improvements_section improvements =
     (if contains (str_upper env line) (str ''IMPROVEMENTS:'') then
        improvements_loop env lines True improvements
      else if in_improvements_section \<and> py_strip line \<noteq> [] then
        (if \<not> startswith line (str ''APPROVAL:'') then
           improvements_loop env lines in_improvements_section
             (improvements @ [py_strip line])
         else improvements)
      else improvements_loop env lines in_improvements_section improvements)"

definition generate_improvements :: "backend \<Rightarrow> pystr \<Rightarrow> pystr \<Rightarrow> pystr list" where
  "generate_improvements env content analysis =
     improvements_loop env (py_lines analysis) False []"

fun qa_dialogues ::
  "backend \<Rightarrow> pystr option \<Rightarrow> pystr \<Rightarrow> int \<Rightarrow> dialogue_item list \<Rightarrow> scene_validation list \<Rightarrow>
   (exn, scene_validation list) action" where
  "qa_dialogues env topic age_group n [] acc = returnE acc"
| "qa_dialogues env topic age_group n (item # items) acc =
     bindE (ask (\<lambda>t. analyze_content_quality env t
               (str ''Character '' @ character item @ str '': '' @ dialogue item)
               topic age_group)) (\<lambda>dialogue_analysis.
     qa_dialogues env topic age_group n items
       (acc @ [\<lparr>sv_scene_number = n, sv_character = character item,
                sv_dialogue = dialogue item, sv_analysis = dialogue_analysis\<rparr>]))"

fun qa_scenes ::
  "backend \<Rightarrow> pystr option \<Rightarrow> pystr \<Rightarrow> scene list \<Rightarrow> scene_validation list \<Rightarrow>
   (exn, scene_validation list) action" where
  "qa_scenes env topic age_group [] acc = returnE acc"
| "qa_scenes env topic age_group (s # ss) acc =
     bindE (qa_dialogues env topic age_group (scene_number s) (dialogues s) acc)
       (\<lambda>acc'. qa_scenes env topic age_group ss acc')"

definition qa_try :: "backend \<Rightarrow> agent_input \<Rightarrow> (exn, qa_data) action" where
  "qa_try env input_data =
     (let educational_content = get_or (in_educational_content input_data) [];
          topic = in_topic input_data;
          age_group = get_or (in_age_group input_data) (str ''child'');
          scenes = get_or (in_scenes input_data) [] in
      bindE (ask (\<lambda>t. analyze_content_quality env t educational_content topic age_group))
        (\<lambda>quality_analysis.
      bindE (qa_scenes env topic age_group scenes []) (\<lambda>scene_validations.
      let approval_status = parse_approval_status env quality_analysis;
          improvements =
            (if \<not> approval_status
             then generate_improvements env educational_content quality_analysis
             else []) in
      returnE
        \<lparr>quality_analysis = quality_analysis, scene_validations = scene_validations,
         approval_status = approval_status, improvements_needed = improvements,
         total_scenes_validated = length scenes,
         validation_summary =
           \<lparr>content_approved = approval_status,
            scenes_checked = length scene_validations,
            improvement_count = length improvements\<rparr>\<rparr>)))"

definition qa_agent_name :: pystr where
  "qa_agent_name = str ''QualityAssuranceAgent''"

definition qa_execute ::
  "backend \<Rightarrow> agent_input \<Rightarrow> nat \<Rightarrow> int \<Rightarrow> (exn, qa_data agent_result) action" where
  "qa_execute env input_data generation_id step =
     agent_execute env qa_agent_name (qa_try env input_data)
       (\<lambda>_. returnE ()) generation_id step"

section \<open>Datastore: the generation record (database.py)\<close>

text \<open>
  \<^verbatim>\<open>log_comic_generation\<close> inserts a row with status \<^verbatim>\<open>processing\<close> and returns
  its key, which the table numbers by itself (\<^verbatim>\<open>AUTO_INCREMENT\<close>): a key larger
  than every key in the table.
\<close>

definition next_generation_id :: "world \<Rightarrow> nat" where
  "next_generation_id w = Suc (fold max (map gr_id (comic_generations w)) 0)"

definition log_comic_generation ::
  "backend \<Rightarrow> pystr \<Rightarrow> pystr option \<Rightarrow> pystr \<Rightarrow> pystr \<Rightarrow> (exn, nat) action" where
  "log_comic_generation env user_id topic comic_style language =
     db_write env LogComicGeneration
       (\<lambda>w. let new_id = next_generation_id w in
          (new_id,
           w\<lparr>comic_generations := comic_generations w @
               [\<lparr>gr_id = new_id, gr_user_id = user_id, gr_topic = topic,
                 gr_comic_style = comic_style, gr_language = language,
                 gr_status = Processing, gr_output_path = None,
                 gr_generation_time_seconds = None, gr_completed_at = False\<rparr>]\<rparr>))"

text \<open>
  \<^verbatim>\<open>update_comic_generation_status\<close>: the row with the given key gets the new
  status; the output path and the generation time are set when the argument is
  truthy, the completion time when the status is \<^verbatim>\<open>completed\<close>.
\<close>

definition update_row ::
  "status \<Rightarrow> pystr option \<Rightarrow> int option \<Rightarrow> generation_record \<Rightarrow> generation_record" where
  "update_row st output_path generation_time r =
     r\<lparr>gr_status := st,
       gr_output_path :=
         (case output_path of Some p \<Rightarrow> (if p \<noteq> [] then Some p else gr_output_path r)
          | None \<Rightarrow> gr_output_path r),
       gr_generation_time_seconds :=
         (case generation_time of
            Some t \<Rightarrow> (if t \<noteq> 0 then Some t else gr_generation_time_seconds r)
          | None \<Rightarrow> gr_generation_time_seconds r),
       gr_completed_at := (if st = Completed then True else gr_completed_at r)\<rparr>"

definition update_comic_generation_status ::
  "backend \<Rightarrow> nat \<Rightarrow> status \<Rightarrow> pystr option \<Rightarrow> int option \<Rightarrow> (exn, unit) action" where
  "update_comic_generation_status env generation_id st output_path generation_time =
     db_write env (UpdateComicGenerationStatus st)
       (\<lambda>w. ((), w\<lparr>comic_generations :=
                 map (\<lambda>r. if gr_id r = generation_id
                           then update_row st output_path generation_time r else r)
                   (comic_generations w)\<rparr>))"

text \<open>The status of the generation record with a given key.\<close>

definition generation_status :: "world \<Rightarrow> nat \<Rightarrow> status option" where
  "generation_status w generation_id =
     map_option gr_status (find (\<lambda>r. gr_id r = generation_id) (comic_generations w))"

section \<open>The orchestrator (MultiStepAgentOrchestrator.execute\_workflow)\<close>

record execution_summary =
  total_time_seconds :: int
  steps_completed :: "nat option"
  agents_executed :: "nat option"
  summary_status :: status
  summary_error_message :: "pystr option"

text \<open>The result dictionary; a key that is absent is \<open>None\<close>.\<close>

record workflow_results =
  generation_id :: nat
  content_intelligence :: "content_data option"
  educational_planning :: "planning_data option"
  visual_generation :: "visual_data option"
  quality_assurance :: "qa_data option"
  quality_warning :: "pystr list option"
  error :: "pystr option"
  execution_summary :: "execution_summary option"

text \<open>
  An exception that leaves the \<^verbatim>\<open>try\<close> block reaches the handler together with
  the result dictionary as it is at that moment.
\<close>

definition attempt :: "'s \<Rightarrow> (exn, 'a) action \<Rightarrow> (exn \<times> 's, 'a) action" where
  "attempt wr m w = (case m w of (Inl e, w') \<Rightarrow> (Inl (e, wr), w') | (Inr x, w') \<Rightarrow> (Inr x, w'))"

text \<open>\<^verbatim>\<open>{**user_input, **content_result.data}\<close>; unpacking \<^verbatim>\<open>None\<close> raises.\<close>

definition merge_input :: "agent_input \<Rightarrow> content_data option \<Rightarrow> (exn, agent_input) action" where
  "merge_input user_input d =
     (case d of
        None \<Rightarrow> raiseE (Exn (str ''NoneType object is not a mapping''))
      | Some cd \<Rightarrow>
          returnE (user_input\<lparr>in_educational_content := Some (educational_content cd),
                              in_characters := Some (characters cd),
                              in_scenes := Some (scenes cd)\<rparr>))"

text \<open>
  The \<^verbatim>\<open>try\<close> block of \<^verbatim>\<open>execute_workflow\<close>.  The status callback is output
  only and is left out.  The clock is read in milliseconds, the total time is in
  seconds.
\<close>

definition workflow_try ::
  "backend \<Rightarrow> agent_input \<Rightarrow> nat \<Rightarrow> int \<Rightarrow> workflow_results \<Rightarrow>
   (exn \<times> workflow_results, workflow_results) action" where
  "workflow_try env user_input gid workflow_start_time wr0 =
     bindE (attempt wr0 (content_execute env user_input gid 1)) (\<lambda>content_result.
     if \<not> success content_result then
       raiseE (Exn (str ''Content Intelligence Agent failed: '' @
                    py_str_opt (error_message content_result)), wr0)
     else
     let wr1 = wr0\<lparr>content_intelligence := data content_result\<rparr> in
     bindE (attempt wr1 (merge_input user_input (data content_result))) (\<lambda>planning_input.
     bindE (attempt wr1 (planning_execute env planning_input gid 2)) (\<lambda>planning_result.
     if \<not> success planning_result then
       raiseE (Exn (str ''Educational Planning Agent failed: '' @
                    py_str_opt (error_message planning_result)), wr1)
     else
     let wr2 = wr1\<lparr>educational_planning := data planning_result\<rparr> in
     bindE (attempt wr2 (merge_input user_input (data content_result))) (\<lambda>visual_input.
     bindE (attempt wr2 (visual_execute env visual_input gid 3)) (\<lambda>visual_result.
     if \<not> success visual_result then
       raiseE (Exn (str ''Visual Generation Agent failed: '' @
                    py_str_opt (error_message visual_result)), wr2)
     else
     let wr3 = wr2\<lparr>visual_generation := data visual_result\<rparr> in
     bindE (attempt wr3 (merge_input user_input (data content_result))) (\<lambda>qa_input.
     bindE (attempt wr3 (qa_execute env qa_input gid 4)) (\<lambda>qa_result.
     if \<not> success qa_result then
       raiseE (Exn (str ''Quality Assurance Agent failed: '' @
                    py_str_opt (error_message qa_result)), wr3)
     else
     let wr4 = wr3\<lparr>quality_assurance := data qa_result\<rparr> in
     (case data qa_result of
        None \<Rightarrow> raiseE (Exn (str ''NoneType object has no attribute get''), wr4)
      | Some qa \<Rightarrow>
     let wr5 = (if \<not> approval_status qa
                then wr4\<lparr>quality_warning := Some (improvements_needed qa)\<rparr> else wr4) in
     bindE (now env) (\<lambda>t.
     let total_execution_time = (t - workflow_start_time) div 1000 in
     bindE (attempt wr5 (update_comic_generation_status env gid Completed None
                            (Some total_execution_time))) (\<lambda>_.
     returnE (wr5\<lparr>execution_summary := Some
                \<lparr>total_time_seconds = total_execution_time, steps_completed = Some 4,
                 agents_executed = Some 4, summary_status = Completed,
                 summary_error_message = None\<rparr>\<rparr>)))))))))))"

text \<open>The handler \<^verbatim>\<open>except Exception as e\<close> of \<^verbatim>\<open>execute_workflow\<close>.\<close>

definition workflow_except ::
  "backend \<Rightarrow> nat \<Rightarrow> int \<Rightarrow> exn \<times> workflow_results \<Rightarrow> (exn, workflow_results) action" where
  "workflow_except env gid workflow_start_time ew =
     bindE (update_comic_generation_status env gid Failed None None) (\<lambda>_.
     bindE (now env) (\<lambda>t.
     returnE ((snd ew)\<lparr>error := Some (message (fst ew)),
                execution_summary := Some
                  \<lparr>total_time_seconds = (t - workflow_start_time) div 1000,
                   steps_completed = None, agents_executed = None,
                   summary_status = Failed,
                   summary_error_message = Some (message (fst ew))\<rparr>\<rparr>)))"

definition execute_workflow :: "backend \<Rightarrow> agent_input \<Rightarrow> (exn, workflow_results) action" where
  "execute_workflow env user_input =
     bindE (log_comic_generation env
              (get_or (in_user_id user_input) (str ''anonymous''))
              (in_topic user_input)
              (get_or (in_visual_style user_input) (str ''comic''))
              (get_or (in_language user_input) (str ''en''))) (\<lambda>gid.
     bindE (now env) (\<lambda>workflow_start_time.
     catchE
       (workflow_try env user_input gid workflow_start_time
          \<lparr>generation_id = gid, content_intelligence = None, educational_planning = None,
           visual_generation = None, quality_assurance = None, quality_warning = None,
           error = None, execution_summary = None\<rparr>)
       (workflow_except env gid workflow_start_time)))"

section \<open>The rendering driver (GenerateComicAgentic.py)\<close>
























section \<open>A concrete backend, world and request\<close>

text \<open>
  A backend in which every call succeeds and returns a fixed answer, the empty
  datastore, and a request.  They serve to run the model on concrete inputs.
\<close>

definition sample_script :: pystr where
  "sample_script =
     str ''SCENE 1\<newline>Ann: Hi\<newline>Bo: Yo\<newline>SCENE 2\<newline>Ann: Bye''"

definition reliable_backend :: backend where
  "reliable_backend =
     \<lparr>generate_educational_content = (\<lambda>t topic age_group language. Inr sample_script),
      extract_character_info = (\<lambda>t content. Inr []),
      generate_comic_poster_prompt = (\<lambda>t topic visual_style names. Inr (str ''cover'')),
      generate_visual_prompt = (\<lambda>t c d n topic visual_style. Inr (str ''panel'')),
      analyze_content_quality = (\<lambda>t content topic age_group. Inr (str ''APPROVAL: YES'')),
      generate_text = (\<lambda>t topic age_group. Inr (str ''- name the planets'')),
      search_similar_content = (\<lambda>t query content_type limit. Inr []),
      get_successful_comic_patterns = (\<lambda>t limit. Inr []),
      search_character_templates = (\<lambda>t query visual_style limit. Inr []),
      db_fault = (\<lambda>t op. None),
      time_time = (\<lambda>t. int t),
      str_upper = (\<lambda>s. s),
      generate_random_alpha_string = (\<lambda>t n. str ''img''),
      generate_comic_poster = (\<lambda>t prompt name. Inr (Some (str ''poster.png''))),
      generate_comic_panel = (\<lambda>t prompt name style. Inr (Some (str ''panel.png''))),
      generate_image = (\<lambda>t prompt name. Inr (Some (str ''image.png''))),
      create_fallback_image = (\<lambda>t name prompt. Inr (str ''fallback.png'')),
      add_text_to_image = (\<lambda>t path text_from_prompt name. None),
      pdf_fault = (\<lambda>t images output_path. None),
      pool_order = (\<lambda>t n. [0..<n])\<rparr>"

text \<open>The same backend with a datastore that refuses one kind of statement.\<close>

definition refusing :: "db_op \<Rightarrow> backend" where
  "refusing op =
     reliable_backend\<lparr>db_fault := (\<lambda>t op'. if op' = op
                                       then Some (Exn (str ''connection lost'')) else None)\<rparr>"

definition empty_world :: world where
  "empty_world =
     \<lparr>ticks = 0, comic_generations = [], agent_logs = [], stored_content = [], trace = [],
      generated_images_paths = [], pdf_requests = [], documents = []\<rparr>"

definition sample_request :: agent_input where
  "sample_request =
     \<lparr>in_topic = Some (str ''Solar System''), in_visual_style = Some (str ''superhero''),
      in_age_group = Some (str ''child''), in_language = Some (str ''en''),
      in_user_id = Some (str ''system''), in_educational_content = None,
      in_characters = None, in_scenes = None\<rparr>"

definition sample_scenes :: "scene list" where
  "sample_scenes =
     [\<lparr>scene_number = 1,
       dialogues = [\<lparr>character = str ''Ann'', dialogue = str ''Hi''\<rparr>,
                    \<lparr>character = str ''Bo'', dialogue = str ''Yo''\<rparr>]\<rparr>,
      \<lparr>scene_number = 2,
       dialogues = [\<lparr>character = str ''Ann'', dialogue = str ''Bye''\<rparr>]\<rparr>]"

definition sample_visual_input :: agent_input where
  "sample_visual_input = sample_request\<lparr>in_scenes := Some sample_scenes\<rparr>"

text \<open>A backend whose text service refuses to write the script, with a reliable
  datastore and with a datastore that refuses to set the status \<^verbatim>\<open>failed\<close>.\<close>

definition scriptless_backend :: backend where
  "scriptless_backend =
     reliable_backend\<lparr>generate_educational_content :=
        (\<lambda>t topic age_group language. Inl (Exn (str ''quota exceeded'')))\<rparr>"

definition scriptless_refusing_backend :: backend where
  "scriptless_refusing_backend =
     scriptless_backend\<lparr>db_fault := (\<lambda>t op. if op = UpdateComicGenerationStatus Failed
                                         then Some (Exn (str ''connection lost'')) else None)\<rparr>"

text \<open>A backend that differs from the reliable one in a single point: the datastore
  refuses every update of a generation status.\<close>

definition status_refusing_backend :: backend where
  "status_refusing_backend =
     reliable_backend\<lparr>db_fault := (\<lambda>t op. case op of
        UpdateComicGenerationStatus st \<Rightarrow> Some (Exn (str ''connection lost''))
      | _ \<Rightarrow> None)\<rparr>"







section \<open>Notions used in the proofs\<close>

text \<open>An action keeps a component of the world when it never changes it.\<close>

definition keeps :: "(world \<Rightarrow> 'x) \<Rightarrow> ('e, 'a) action \<Rightarrow> bool" where
  "keeps f m \<longleftrightarrow> (\<forall>w. f (snd (m w)) = f w)"

text \<open>The AgentResult built by the handler of an agent, at time \<open>t\<close>.\<close>

definition failed_result :: "int \<Rightarrow> int \<Rightarrow> exn \<Rightarrow> 'a agent_result" where
  "failed_result elapsed step e =
     \<lparr>success = False, data = None, execution_time_ms = elapsed,
      error_message = Some (message e), step_number = step\<rparr>"

text \<open>An action is calm when it leaves the tables of generation records and of agent
  logs, the trace, and the state of the rendering driver as they are.\<close>

definition calm :: "('e, 'a) action \<Rightarrow> bool" where
  "calm m \<longleftrightarrow>
     keeps comic_generations m \<and> keeps agent_logs m \<and> keeps trace m \<and>
     keeps generated_images_paths m \<and> keeps pdf_requests m \<and> keeps documents m"

text \<open>
  How far a run of the \<^verbatim>\<open>try\<close> block of the orchestrator got: the \<open>k\<close>-th
  agent was entered and raised, or it returned a failure, or all four agents returned
  a success.  \<open>trace_of\<close> and \<open>log_keys\<close> are the events and the log rows (agent
  name, step number, success) that such a run leaves.
\<close>

datatype progress = RaisedIn nat | FailedIn nat | AllSucceeded

definition agent_names :: "pystr list" where
  "agent_names =
     [content_agent_name, planning_agent_name, visual_agent_name, qa_agent_name]"

definition agent_titles :: "pystr list" where
  "agent_titles =
     [str ''Content Intelligence Agent'', str ''Educational Planning Agent'',
      str ''Visual Generation Agent'', str ''Quality Assurance Agent'']"

definition succeeded_events :: "event list" where
  "succeeded_events =
     [Entered content_agent_name 1, Returned content_agent_name 1 True,
      Entered planning_agent_name 2, Returned planning_agent_name 2 True,
      Entered visual_agent_name 3, Returned visual_agent_name 3 True,
      Entered qa_agent_name 4, Returned qa_agent_name 4 True]"

fun trace_of :: "progress \<Rightarrow> event list" where
  "trace_of (RaisedIn k) =
     take (2 * (k - 1)) succeeded_events @ [Entered (agent_names ! (k - 1)) (int k)]"
| "trace_of (FailedIn k) =
     take (2 * (k - 1)) succeeded_events @
     [Entered (agent_names ! (k - 1)) (int k), Returned (agent_names ! (k - 1)) (int k) False]"
| "trace_of AllSucceeded = succeeded_events"

definition log_key :: "agent_log_entry \<Rightarrow> pystr \<times> int \<times> bool" where
  "log_key l = (al_agent_name l, al_step_number l, al_status l = LogSuccess)"

definition succeeded_keys :: "(pystr \<times> int \<times> bool) list" where
  "succeeded_keys =
     [(content_agent_name, 1, True), (planning_agent_name, 2, True),
      (visual_agent_name, 3, True), (qa_agent_name, 4, True)]"

fun log_keys :: "progress \<Rightarrow> (pystr \<times> int \<times> bool) list" where
  "log_keys (RaisedIn k) = take (k - 1) succeeded_keys"
| "log_keys (FailedIn k) =
     take (k - 1) succeeded_keys @ [(agent_names ! (k - 1), int k, False)]"
| "log_keys AllSucceeded = succeeded_keys"

fun progress_ok :: "progress \<Rightarrow> bool" where
  "progress_ok (RaisedIn k) = (k \<in> {1, 2, 3, 4})"
| "progress_ok (FailedIn k) = (k \<in> {1, 2, 3, 4})"
| "progress_ok AllSucceeded = True"

text \<open>The steps of the agents entered, as a trace lists them.\<close>

fun entered_steps :: "event list \<Rightarrow> int list" where
  "entered_steps [] = []"
| "entered_steps (Entered name k # es) = k # entered_steps es"
| "entered_steps (Returned name k s # es) = entered_steps es"

text \<open>What the \<^verbatim>\<open>try\<close> block of the orchestrator returns or raises, and what it
  did to the generation records, for each way a run can go.\<close>

definition try_outcome ::
  "backend \<Rightarrow> nat \<Rightarrow> workflow_results \<Rightarrow> world \<Rightarrow> world \<Rightarrow>
   (exn \<times> workflow_results) + workflow_results \<Rightarrow> progress \<Rightarrow> workflow_results \<Rightarrow> bool" where
  "try_outcome env gid wr0 w w' r p wr \<longleftrightarrow>
     (case p of
        RaisedIn k \<Rightarrow>
          comic_generations w' = comic_generations w \<and>
          (\<exists>e t. r = Inl (e, wr) \<and> db_fault env t LogAgentExecution = Some e)
      | FailedIn k \<Rightarrow>
          comic_generations w' = comic_generations w \<and>
          (\<exists>msg. r = Inl (Exn (agent_titles ! (k - 1) @ str '' failed: '' @ msg), wr))
      | AllSucceeded \<Rightarrow>
          (r = Inr wr \<and> error wr = error wr0 \<and>
           map_option summary_status (execution_summary wr) = Some Completed \<and>
           (\<exists>t. comic_generations w' =
                 map (\<lambda>r. if gr_id r = gid then update_row Completed None t r else r)
                   (comic_generations w))) \<or>
          (comic_generations w' = comic_generations w \<and>
           (\<exists>e t. r = Inl (e, wr) \<and>
                  db_fault env t (UpdateComicGenerationStatus Completed) = Some e)))"

text \<open>What \<^verbatim>\<open>execute_workflow\<close> returns or raises once the generation record
  \<open>gid\<close> exists, and the status it leaves in that record.\<close>

definition run_outcome ::
  "backend \<Rightarrow> nat \<Rightarrow> world \<Rightarrow> exn + workflow_results \<Rightarrow> progress \<Rightarrow> bool" where
  "run_outcome env gid w' r p \<longleftrightarrow>
     (p = AllSucceeded \<and>
      (\<exists>wr. r = Inr wr \<and> generation_id wr = gid \<and> error wr = None \<and>
            map_option summary_status (execution_summary wr) = Some Completed \<and>
            generation_status w' gid = Some Completed)) \<or>
     (\<exists>wr msg. r = Inr wr \<and> generation_id wr = gid \<and> error wr = Some msg \<and>
            map_option summary_status (execution_summary wr) = Some Failed \<and>
            generation_status w' gid = Some Failed \<and>
            (case p of FailedIn k \<Rightarrow>
               (\<exists>m. msg = agent_titles ! (k - 1) @ str '' failed: '' @ m) | _ \<Rightarrow> True)) \<or>
     (\<exists>e t. r = Inl e \<and> db_fault env t (UpdateComicGenerationStatus Failed) = Some e \<and>
            generation_status w' gid = Some Processing)"

text \<open>
  The contract of an agent's \<^verbatim>\<open>execute\<close>, relating its outcome \<open>r\<close> to the outcome
  of the body of its \<^verbatim>\<open>try\<close> statement (\<open>try_block\<close>, then \<open>after_result\<close>), which
  runs in the world reached after the start time was read.  An exception leaves
  \<^verbatim>\<open>execute\<close> only when the log write raises it; a returned result carries the
  step, has been logged, and is a failure with the text of the exception exactly when
  the body of the \<^verbatim>\<open>try\<close> statement raised.
\<close>

definition execute_contract ::
  "backend \<Rightarrow> pystr \<Rightarrow> (exn, 'a) action \<Rightarrow> ('a \<Rightarrow> (exn, unit) action) \<Rightarrow> nat \<Rightarrow> int \<Rightarrow>
   world \<Rightarrow> exn + 'a agent_result \<Rightarrow> world \<Rightarrow> bool" where
  "execute_contract env name try_block after_result gid step w r w' \<longleftrightarrow>
     (\<forall>e. r = Inl e \<longrightarrow>
        (\<exists>t. db_fault env t LogAgentExecution = Some e) \<and> agent_logs w' = agent_logs w) \<and>
     ((\<forall>t. db_fault env t LogAgentExecution = None) \<longrightarrow> (\<exists>res. r = Inr res)) \<and>
     (\<forall>res. r = Inr res \<longrightarrow>
        step_number res = step \<and>
        agent_logs w' = agent_logs w @ [log_entry name gid step res] \<and>
        (case try_block (tick (w\<lparr>trace := trace w @ [Entered name step]\<rparr>)) of
           (Inl e, w1) \<Rightarrow>
             \<not> success res \<and> data res = None \<and> error_message res = Some (message e)
         | (Inr d, w1) \<Rightarrow>
             (case after_result d (tick w1) of
                (Inl e, w2) \<Rightarrow>
                  \<not> success res \<and> data res = None \<and> error_message res = Some (message e)
              | (Inr u, w2) \<Rightarrow>
                  success res \<and> data res = Some d \<and> error_message res = None)))"


section \<open>Dialogue wrapping: proofs\<close>

lemma split_words_no_space:
  "x \<in> set (split_words w s) \<Longrightarrow> \<forall>c \<in> set w. \<not> py_isspace c \<Longrightarrow> \<forall>c \<in> set x. \<not> py_isspace c"
proof (induction s arbitrary: w)
  case Nil
  then show ?case by (auto split: if_splits)
next
  case (Cons a s)
  show ?case
  proof (cases "py_isspace a")
    case True
    with Cons.prems have "x = w \<or> x \<in> set (split_words [] s)"
      by (auto split: if_splits)
    then show ?thesis using Cons.IH [of "[]"] Cons.prems(2) by auto
  next
    case False
    with Cons.prems have "x \<in> set (split_words (w @ [a]) s)" by simp
    then show ?thesis using Cons.IH [of "w @ [a]"] Cons.prems(2) False by auto
  qed
qed

lemma py_split_no_newline: "x \<in> set (py_split s) \<Longrightarrow> count_list x 10 = 0"
proof -
  assume x: "x \<in> set (py_split s)"
  have "py_isspace 10" by (simp add: py_isspace_def)
  moreover from x have "\<forall>c \<in> set x. \<not> py_isspace c"
    using split_words_no_space [of x "[]" s] by (simp add: py_split_def)
  ultimately have "10 \<notin> set x" by blast
  then show ?thesis by (simp add: count_list_0_iff)
qed

lemma list14:
  "length (ws :: 'a list) = 14 \<Longrightarrow>
   \<exists>a b c d e f g h i j k l m n. ws = [a, b, c, d, e, f, g, h, i, j, k, l, m, n]"
  by (simp add: eval_nat_numeral length_Suc_conv) blast

lemma loop14:
  "add_line_breaks_loop 0 [a, b, c, d, e, f, g, h, i, j, k, l, m, n] [] =
   a @ [32] @ b @ [32] @ c @ [32] @ d @ [32] @ e @ [32] @ f @ [32] @ g @ [10] @
   h @ [32] @ i @ [32] @ j @ [32] @ k @ [32] @ l @ [32] @ m @ [32] @ n @ [10]"
  by simp

lemma count_list_append: "count_list (xs @ ys) c = count_list xs c + count_list ys c"
  by (induction xs) auto

text \<open>
  Claim C6, as amended.  For a text of exactly fourteen words the wrapped text is the
  first seven words joined by single spaces, a line break, the last seven words joined
  by single spaces, and a second line break: a separator follows every word, the
  fourteenth too, and \<open>(13 + 1) mod 7 = 0\<close>.  The wrapped text therefore holds
  exactly two line-break characters, one right after the seventh word and one right
  after the fourteenth.
\<close>

theorem add_line_breaks_14_words:
  "length (py_split s) = 14 \<Longrightarrow>
     add_line_breaks s =
       py_join [32] (take 7 (py_split s)) @ [10] @ py_join [32] (drop 7 (py_split s)) @ [10]
     \<and> count_list (add_line_breaks s) 10 = 2"
proof -
  assume len: "length (py_split s) = 14"
  from list14 [OF len] obtain a b c d e f g h i j k l m n
    where ws: "py_split s = [a, b, c, d, e, f, g, h, i, j, k, l, m, n]"
    by (elim exE)
  have out: "add_line_breaks s =
     a @ [32] @ b @ [32] @ c @ [32] @ d @ [32] @ e @ [32] @ f @ [32] @ g @ [10] @
     h @ [32] @ i @ [32] @ j @ [32] @ k @ [32] @ l @ [32] @ m @ [32] @ n @ [10]"
    unfolding add_line_breaks_def ws by (rule loop14)
  have nl: "\<And>x. x \<in> set (py_split s) \<Longrightarrow> count_list x 10 = 0"
    by (rule py_split_no_newline)
  have "count_list (add_line_breaks s) 10 = 2"
    unfolding out using nl by (simp add: ws count_list_append)
  moreover have "add_line_breaks s =
       py_join [32] (take 7 (py_split s)) @ [10] @ py_join [32] (drop 7 (py_split s)) @ [10]"
    unfolding out by (simp add: ws)
  ultimately show ?thesis by simp
qed

text \<open>The amended claim C6 at a text of fourteen one-letter words.\<close>

theorem add_line_breaks_14_words_witness:
  "length (py_split (str ''a b c d e f g h i j k l m n'')) = 14 \<and>
   count_list (add_line_breaks (str ''a b c d e f g h i j k l m n'')) 10 = 2"
proof -
  have h: "length (py_split (str ''a b c d e f g h i j k l m n'')) = 14"
    by (simp add: py_split_def str_def py_isspace_def)
  from add_line_breaks_14_words [OF h] h show ?thesis by blast
qed

text \<open>
  Claim C6 as stated (exactly one line break for fourteen words) fails: the text
  \<^verbatim>\<open>a b c d e f g h i j k l m n\<close> has fourteen words and its wrapped form does not
  hold exactly one line break.
\<close>

theorem add_line_breaks_one_break_counterexample:
  "length (py_split (str ''a b c d e f g h i j k l m n'')) = 14 \<and>
   count_list (add_line_breaks (str ''a b c d e f g h i j k l m n'')) 10 \<noteq> 1"
  by (simp add: add_line_breaks_def py_split_def str_def py_isspace_def)

section \<open>The script parser: proofs\<close>

lemma parse_line_inv: "parse_inv st \<Longrightarrow> parse_inv (parse_line st raw)"
  by (cases st) (auto simp: parse_inv_def parse_line_def Let_def split: option.splits)

lemma parse_line_opened:
  "opened (parse_line st raw) = opened st + (if is_scene_marker raw then 1 else 0)"
  by (cases st) (auto simp: opened_def parse_line_def is_scene_marker_def Let_def split: option.splits)

lemma foldl_parse_inv: "parse_inv st \<Longrightarrow> parse_inv (foldl parse_line st ls)"
  by (induction ls arbitrary: st) (auto simp: parse_line_inv)

lemma foldl_parse_opened:
  "opened (foldl parse_line st ls) = opened st + length (filter is_scene_marker ls)"
  by (induction ls arbitrary: st) (auto simp: parse_line_opened)

text \<open>
  Claim C10.  For every script text the scene numbers produced by the parser are
  \<open>1, 2, \<dots>, N\<close> in this order, where \<open>N\<close> is the number of lines that
  start with the scene marker once stripped; the numbers written in the script play no
  part.  The parser is a total function of the text: none of its steps can raise.
\<close>

theorem parse_scene_numbers:
  "map scene_number (parse_educational_content content) =
     map int [1..<Suc (length (parse_educational_content content))] \<and>
   length (parse_educational_content content) =
     length (filter is_scene_marker (py_lines content))"
proof -
  let ?st = "foldl parse_line ([], None) (py_lines content)"
  have inv: "parse_inv ?st" by (rule foldl_parse_inv) (simp add: parse_inv_def)
  have cnt: "opened ?st = length (filter is_scene_marker (py_lines content))"
    using foldl_parse_opened [of "([], None)" "py_lines content"] by (simp add: opened_def)
  show ?thesis
    using inv cnt
    by (auto simp: parse_educational_content_def parse_inv_def opened_def Let_def split: option.splits)
qed

text \<open>Claim C10 on a script whose own numbering is 7 and 9: the scenes are numbered 1, 2.\<close>

theorem parse_scene_numbers_witness:
  "map scene_number (parse_educational_content
      (str ''CHARACTERS: Al, Bob\<newline>SCENE 7:\<newline>Bob: hi: there\<newline> SCENE 9\<newline>Al : yo'')) = [1, 2]"
proof -
  have "length (filter is_scene_marker
      (py_lines (str ''CHARACTERS: Al, Bob\<newline>SCENE 7:\<newline>Bob: hi: there\<newline> SCENE 9\<newline>Al : yo''))) = 2"
    by (simp add: is_scene_marker_def py_lines_def str_def startswith_def py_strip_def
        py_isspace_def)
  with parse_scene_numbers
    [of "str ''CHARACTERS: Al, Bob\<newline>SCENE 7:\<newline>Bob: hi: there\<newline> SCENE 9\<newline>Al : yo''"]
  show ?thesis by (simp add: eval_nat_numeral)
qed

section \<open>Frames\<close>


lemma keepsD: "keeps f m \<Longrightarrow> m w = (r, w') \<Longrightarrow> f w' = f w"
  unfolding keeps_def by (metis snd_conv)

lemma keeps_returnE: "keeps f (returnE x)"
  by (simp add: keeps_def returnE_def)

lemma keeps_raiseE: "keeps f (raiseE e)"
  by (simp add: keeps_def raiseE_def)

lemma keeps_ask: "(\<And>w. f (tick w) = f w) \<Longrightarrow> keeps f (ask g)"
  by (simp add: keeps_def ask_def)

lemma keeps_now: "(\<And>w. f (tick w) = f w) \<Longrightarrow> keeps f (now env)"
  by (simp add: keeps_def now_def)

lemma keeps_bindE: "keeps f m \<Longrightarrow> (\<And>x. keeps f (g x)) \<Longrightarrow> keeps f (bindE m g)"
  unfolding keeps_def bindE_def
  by (auto split: prod.splits sum.splits) (metis snd_conv)+

lemma keeps_catchE: "keeps f m \<Longrightarrow> (\<And>e. keeps f (h e)) \<Longrightarrow> keeps f (catchE m h)"
  unfolding keeps_def catchE_def
  by (auto split: prod.splits sum.splits) (metis snd_conv)+

lemma keeps_attempt: "keeps f m \<Longrightarrow> keeps f (attempt s m)"
  unfolding keeps_def attempt_def
  by (auto split: prod.splits sum.splits) (metis snd_conv)+

lemma keeps_if: "keeps f a \<Longrightarrow> keeps f b \<Longrightarrow> keeps f (if c then a else b)"
  by simp

lemma keeps_db_write:
  "(\<And>w. f (tick w) = f w) \<Longrightarrow> (\<And>w. f (snd (effect w)) = f w) \<Longrightarrow> keeps f (db_write env op effect)"
  unfolding keeps_def db_write_def
  by (auto split: prod.splits option.splits) (metis snd_conv)

lemmas keeps_intros =
  keeps_returnE keeps_raiseE keeps_ask keeps_now keeps_bindE keeps_catchE keeps_attempt
  keeps_if


lemma bindE_Inr: "m w = (Inr x, w1) \<Longrightarrow> bindE m f w = f x w1"
  by (simp add: bindE_def)

lemma bindE_Inl: "m w = (Inl e, w1) \<Longrightarrow> bindE m f w = (Inl e, w1)"
  by (simp add: bindE_def)

lemma keeps_visual_dialogues:
  "(\<And>w. f (tick w) = f w) \<Longrightarrow> keeps f (visual_dialogues env vs topic n items acc)"
  by (induction items arbitrary: acc) (auto intro!: keeps_intros)

lemma keeps_visual_scenes:
  "(\<And>w. f (tick w) = f w) \<Longrightarrow> keeps f (visual_scenes env vs topic ss acc)"
  by (induction ss arbitrary: acc) (auto intro!: keeps_intros keeps_visual_dialogues)

lemma keeps_qa_dialogues:
  "(\<And>w. f (tick w) = f w) \<Longrightarrow> keeps f (qa_dialogues env topic ag n items acc)"
  by (induction items arbitrary: acc) (auto intro!: keeps_intros)

lemma keeps_qa_scenes:
  "(\<And>w. f (tick w) = f w) \<Longrightarrow> keeps f (qa_scenes env topic ag ss acc)"
  by (induction ss arbitrary: acc) (auto intro!: keeps_intros keeps_qa_dialogues)

lemma keeps_content_try: "(\<And>w. f (tick w) = f w) \<Longrightarrow> keeps f (content_try env i)"
  unfolding content_try_def Let_def by (intro keeps_intros) auto

lemma keeps_planning_try: "(\<And>w. f (tick w) = f w) \<Longrightarrow> keeps f (planning_try env i)"
  unfolding planning_try_def generate_learning_objectives_def Let_def
  by (intro keeps_intros) auto

lemma keeps_visual_try: "(\<And>w. f (tick w) = f w) \<Longrightarrow> keeps f (visual_try env i)"
  unfolding visual_try_def Let_def by (intro keeps_intros keeps_visual_scenes) auto

lemma keeps_qa_try: "(\<And>w. f (tick w) = f w) \<Longrightarrow> keeps f (qa_try env i)"
  unfolding qa_try_def Let_def by (intro keeps_intros keeps_qa_scenes) auto

lemma tick_fields [simp]:
  "comic_generations (tick w) = comic_generations w"
  "agent_logs (tick w) = agent_logs w"
  "stored_content (tick w) = stored_content w"
  "trace (tick w) = trace w"
  "generated_images_paths (tick w) = generated_images_paths w"
  "pdf_requests (tick w) = pdf_requests w"
  "documents (tick w) = documents w"
  "ticks (tick w) = Suc (ticks w)"
  by (simp_all add: tick_def)

text \<open>The try statement of an agent always produces a result.\<close>

lemma agent_try_eq:
  "agent_try env tb ar st step w =
     (case tb w of
        (Inl e, w1) \<Rightarrow> (Inr (failed_result (time_time env (ticks w1) - st) step e), tick w1)
      | (Inr d, w1) \<Rightarrow>
          (case ar d (tick w1) of
             (Inl e, w2) \<Rightarrow> (Inr (failed_result (time_time env (ticks w2) - st) step e), tick w2)
           | (Inr u, w2) \<Rightarrow>
               (Inr \<lparr>success = True, data = Some d,
                     execution_time_ms = time_time env (ticks w1) - st,
                     error_message = None, step_number = step\<rparr>, w2)))"
  by (simp add: agent_try_def catchE_def bindE_def now_def returnE_def failed_result_def
      split: prod.splits sum.splits)


lemma agent_try_Inr: "\<exists>res. fst (agent_try env tb ar st step w) = Inr res"
  by (simp add: agent_try_eq split: prod.splits sum.splits)

lemma agent_try_shape:
  "agent_try env tb ar st step w = (r, w') \<Longrightarrow>
   \<exists>res. r = Inr res \<and> step_number res = step \<and>
         (success res \<longrightarrow> data res \<noteq> None \<and> error_message res = None) \<and>
         (\<not> success res \<longrightarrow> data res = None \<and> error_message res \<noteq> None)"
  by (auto simp: agent_try_eq failed_result_def split: prod.splits sum.splits)

lemma keeps_agent_try:
  "(\<And>w. f (tick w) = f w) \<Longrightarrow> keeps f tb \<Longrightarrow> (\<And>d. keeps f (ar d)) \<Longrightarrow>
   keeps f (agent_try env tb ar st step)"
  unfolding agent_try_def by (intro keeps_intros) auto

lemma calm_agent_try:
  "calm tb \<Longrightarrow> (\<And>d. calm (ar d)) \<Longrightarrow> calm (agent_try env tb ar st step)"
  by (simp add: calm_def keeps_agent_try)

lemma calmD:
  "calm m \<Longrightarrow> m w = (r, w') \<Longrightarrow>
   comic_generations w' = comic_generations w \<and> agent_logs w' = agent_logs w \<and>
   trace w' = trace w \<and> generated_images_paths w' = generated_images_paths w \<and>
   pdf_requests w' = pdf_requests w \<and> documents w' = documents w"
  unfolding calm_def by (auto dest: keepsD)

lemma log_execution_cases:
  "log_execution env name gid step res w = (r, w') \<Longrightarrow>
   (\<exists>e. r = Inl e \<and> db_fault env (ticks w) LogAgentExecution = Some e \<and> w' = tick w) \<or>
   (r = Inr () \<and> db_fault env (ticks w) LogAgentExecution = None \<and>
    w' = (tick w)\<lparr>agent_logs := agent_logs w @ [log_entry name gid step res]\<rparr>)"
  by (auto simp: log_execution_def log_agent_execution_def db_write_def split: option.splits)

lemma agent_execute_cases:
  assumes run: "agent_execute env name tb ar gid step w = (r, w')"
    and tb: "calm tb" and ar: "\<And>d. calm (ar d)"
  shows "comic_generations w' = comic_generations w \<and>
         generated_images_paths w' = generated_images_paths w \<and>
         pdf_requests w' = pdf_requests w \<and> documents w' = documents w \<and>
    ((\<exists>e t. r = Inl e \<and> db_fault env t LogAgentExecution = Some e \<and>
            trace w' = trace w @ [Entered name step] \<and> agent_logs w' = agent_logs w) \<or>
     (\<exists>res. r = Inr res \<and>
            trace w' = trace w @ [Entered name step, Returned name step (success res)] \<and>
            agent_logs w' = agent_logs w @ [log_entry name gid step res] \<and>
            step_number res = step \<and>
            (success res \<longrightarrow> data res \<noteq> None) \<and>
            (\<not> success res \<longrightarrow> data res = None \<and> error_message res \<noteq> None)))"
proof -
  let ?w0 = "w\<lparr>trace := trace w @ [Entered name step]\<rparr>"
  let ?st = "time_time env (ticks ?w0)"
  obtain r1 w2 where att: "agent_try env tb ar ?st step (tick ?w0) = (r1, w2)"
    by (cases "agent_try env tb ar ?st step (tick ?w0)") auto
  from agent_try_shape [OF att] obtain res where res: "r1 = Inr res"
    "step_number res = step" "success res \<longrightarrow> data res \<noteq> None"
    "\<not> success res \<longrightarrow> data res = None \<and> error_message res \<noteq> None" by blast
  have f2: "comic_generations w2 = comic_generations w"
    "agent_logs w2 = agent_logs w" "trace w2 = trace w @ [Entered name step]"
    "generated_images_paths w2 = generated_images_paths w"
    "pdf_requests w2 = pdf_requests w" "documents w2 = documents w"
    using calmD [OF calm_agent_try att] tb ar by simp_all
  obtain r3 w3 where log: "log_execution env name gid step res w2 = (r3, w3)"
    by (cases "log_execution env name gid step res w2") auto
  have run': "(r, w') = (case r3 of Inl e \<Rightarrow> (Inl e, w3)
       | Inr u \<Rightarrow> (Inr res, w3\<lparr>trace := trace w3 @ [Returned name step (success res)]\<rparr>))"
    using run att res(1) log
    by (simp add: agent_execute_def bindE_def enter_def now_def leave_def returnE_def
        split: sum.splits)
  from log_execution_cases [OF log] show ?thesis
  proof
    assume "\<exists>e. r3 = Inl e \<and> db_fault env (ticks w2) LogAgentExecution = Some e \<and> w3 = tick w2"
    then show ?thesis using run' f2 by auto
  next
    assume "r3 = Inr () \<and> db_fault env (ticks w2) LogAgentExecution = None \<and>
      w3 = (tick w2)\<lparr>agent_logs := agent_logs w2 @ [log_entry name gid step res]\<rparr>"
    then show ?thesis using run' f2 res by auto
  qed
qed


lemma agent_execute_via_try:
  assumes "agent_execute env name tb ar gid step w = (Inr res, w')"
  shows "\<exists>w2. agent_try env tb ar (time_time env (ticks w)) step
                (tick (w\<lparr>trace := trace w @ [Entered name step]\<rparr>)) = (Inr res, w2) \<and>
              stored_content w' = stored_content w2"
  using assms
  by (auto simp: agent_execute_def bindE_def enter_def now_def leave_def returnE_def
      log_execution_def log_agent_execution_def db_write_def
      split: sum.splits prod.splits option.splits)

lemma agent_try_success:
  assumes "agent_try env tb ar st step w = (Inr res, w')" and "success res"
  shows "\<exists>d w1. tb w = (Inr d, w1) \<and> ar d (tick w1) = (Inr (), w') \<and> data res = Some d"
  using assms
  by (auto simp: agent_try_eq failed_result_def split: prod.splits sum.splits)

lemma agent_try_after_fails:
  assumes "agent_try env tb ar st step w = (Inr res, w')"
    and "\<And>d w1. \<exists>e w2. ar d w1 = (Inl e, w2)"
  shows "\<not> success res \<and> data res = None \<and> error_message res \<noteq> None"
proof -
  from agent_try_shape [OF assms(1)] have sh:
    "\<not> success res \<longrightarrow> data res = None \<and> error_message res \<noteq> None" by auto
  have "\<not> success res"
  proof
    assume "success res"
    from agent_try_success [OF assms(1) this] obtain d w1 where "ar d (tick w1) = (Inr (), w')"
      by blast
    with assms(2) [of d "tick w1"] show False by auto
  qed
  with sh show ?thesis by simp
qed

lemma calm_content_try: "calm (content_try env i)"
  by (simp add: calm_def keeps_content_try)

lemma calm_planning_try: "calm (planning_try env i)"
  by (simp add: calm_def keeps_planning_try)

lemma calm_visual_try: "calm (visual_try env i)"
  by (simp add: calm_def keeps_visual_try)

lemma calm_qa_try: "calm (qa_try env i)"
  by (simp add: calm_def keeps_qa_try)

lemma calm_returnE: "calm (returnE x)"
  by (simp add: calm_def keeps_returnE)

lemma calm_content_store: "calm (content_store env i d)"
  unfolding calm_def content_store_def store_educational_content_def
  by (intro conjI keeps_db_write) simp_all

lemma content_store_cases:
  "content_store env i d w = (r, w') \<Longrightarrow>
   (\<exists>e. r = Inl e \<and> db_fault env (ticks w) StoreEducationalContent = Some e \<and>
        stored_content w' = stored_content w) \<or>
   (r = Inr () \<and> db_fault env (ticks w) StoreEducationalContent = None \<and>
    (\<exists>row. stored_content w' = stored_content w @ [row] \<and>
           ec_content row = educational_content d))"
  by (auto simp: content_store_def store_educational_content_def db_write_def
      split: option.splits)

section \<open>The agents: exceptions and results\<close>

lemma agent_execute_contract:
  assumes run: "agent_execute env name tb ar gid step w = (r, w')"
    and tb: "calm tb" and ar: "\<And>d. calm (ar d)"
  shows "execute_contract env name tb ar gid step w r w'"
proof -
  note c = agent_execute_cases [OF run tb ar]
  have p1: "\<forall>e. r = Inl e \<longrightarrow>
        (\<exists>t. db_fault env t LogAgentExecution = Some e) \<and> agent_logs w' = agent_logs w"
    using c by auto
  have p2: "(\<forall>t. db_fault env t LogAgentExecution = None) \<longrightarrow> (\<exists>res. r = Inr res)"
    using c by auto
  have p3: "\<forall>res. r = Inr res \<longrightarrow>
        step_number res = step \<and>
        agent_logs w' = agent_logs w @ [log_entry name gid step res] \<and>
        (case tb (tick (w\<lparr>trace := trace w @ [Entered name step]\<rparr>)) of
           (Inl e, w1) \<Rightarrow>
             \<not> success res \<and> data res = None \<and> error_message res = Some (message e)
         | (Inr d, w1) \<Rightarrow>
             (case ar d (tick w1) of
                (Inl e, w2) \<Rightarrow>
                  \<not> success res \<and> data res = None \<and> error_message res = Some (message e)
              | (Inr u, w2) \<Rightarrow>
                  success res \<and> data res = Some d \<and> error_message res = None))"
  proof (intro allI impI)
    fix res assume r: "r = Inr res"
    from c r have l: "step_number res = step"
      "agent_logs w' = agent_logs w @ [log_entry name gid step res]" by auto
    from agent_execute_via_try [OF run [unfolded r]] obtain w2 where
      att: "agent_try env tb ar (time_time env (ticks w)) step
              (tick (w\<lparr>trace := trace w @ [Entered name step]\<rparr>)) = (Inr res, w2)" by blast
    have "case tb (tick (w\<lparr>trace := trace w @ [Entered name step]\<rparr>)) of
           (Inl e, w1) \<Rightarrow>
             \<not> success res \<and> data res = None \<and> error_message res = Some (message e)
         | (Inr d, w1) \<Rightarrow>
             (case ar d (tick w1) of
                (Inl e, w2) \<Rightarrow>
                  \<not> success res \<and> data res = None \<and> error_message res = Some (message e)
              | (Inr u, w2) \<Rightarrow>
                  success res \<and> data res = Some d \<and> error_message res = None)"
      using att by (auto simp: agent_try_eq failed_result_def split: prod.splits sum.splits)
    with l show "step_number res = step \<and>
        agent_logs w' = agent_logs w @ [log_entry name gid step res] \<and>
        (case tb (tick (w\<lparr>trace := trace w @ [Entered name step]\<rparr>)) of
           (Inl e, w1) \<Rightarrow>
             \<not> success res \<and> data res = None \<and> error_message res = Some (message e)
         | (Inr d, w1) \<Rightarrow>
             (case ar d (tick w1) of
                (Inl e, w2) \<Rightarrow>
                  \<not> success res \<and> data res = None \<and> error_message res = Some (message e)
              | (Inr u, w2) \<Rightarrow>
                  success res \<and> data res = Some d \<and> error_message res = None))" by blast
  qed
  from p1 p2 p3 show ?thesis unfolding execute_contract_def by blast
qed

text \<open>
  Claim C4, as amended.  Whatever the backends do, each of the four agents'
  \<^verbatim>\<open>execute\<close> methods (Content Intelligence, Educational Planning, Visual
  Generation, Quality Assurance) turns every exception raised inside its \<^verbatim>\<open>try\<close>
  block into a returned AgentResult with \<^verbatim>\<open>success=False\<close>, no data and the text of
  the exception as error message; it returns \<^verbatim>\<open>success=True\<close> with the data exactly
  when the \<^verbatim>\<open>try\<close> block raised nothing; and it writes one log row for the result
  it returns.  The only exception that leaves \<^verbatim>\<open>execute\<close> is one raised by the log
  write (\<^verbatim>\<open>log_execution\<close> is called after the \<^verbatim>\<open>try\<close> statement), and then no
  log row is written; when the log write does not raise, \<^verbatim>\<open>execute\<close> returns
  normally.
\<close>

theorem execute_converts_exceptions:
  "(content_execute env input_data gid step w = (r1, w1) \<longrightarrow>
      execute_contract env content_agent_name (content_try env input_data)
        (content_store env input_data) gid step w r1 w1) \<and>
   (planning_execute env input_data gid step w = (r2, w2) \<longrightarrow>
      execute_contract env planning_agent_name (planning_try env input_data)
        (\<lambda>d. returnE ()) gid step w r2 w2) \<and>
   (visual_execute env input_data gid step w = (r3, w3) \<longrightarrow>
      execute_contract env visual_agent_name (visual_try env input_data)
        (\<lambda>d. returnE ()) gid step w r3 w3) \<and>
   (qa_execute env input_data gid step w = (r4, w4) \<longrightarrow>
      execute_contract env qa_agent_name (qa_try env input_data)
        (\<lambda>d. returnE ()) gid step w r4 w4)"
  unfolding content_execute_def planning_execute_def visual_execute_def qa_execute_def
  by (intro conjI impI agent_execute_contract calm_content_try calm_content_store
      calm_planning_try calm_visual_try calm_qa_try calm_returnE)

text \<open>
  Claim C5, as amended.  Storing the script is part of the \<^verbatim>\<open>try\<close> block of the
  Content Intelligence Agent: a result with \<^verbatim>\<open>success=True\<close> is returned only
  after the script has been stored as a new content row, and when the store operation
  raises, the agent returns \<^verbatim>\<open>success=False\<close> with no data and an error message;
  the script, characters and scenes already computed are dropped.
\<close>

theorem content_store_failure_fails_agent:
  "content_execute env input_data gid step w = (Inr res, w') \<Longrightarrow>
     (success res \<longrightarrow>
        (\<exists>d row. data res = Some d \<and> stored_content w' = stored_content w @ [row] \<and>
                 ec_content row = educational_content d)) \<and>
     ((\<forall>t. db_fault env t StoreEducationalContent \<noteq> None) \<longrightarrow>
        \<not> success res \<and> data res = None \<and> error_message res \<noteq> None)"
proof -
  assume run: "content_execute env input_data gid step w = (Inr res, w')"
  let ?w1 = "tick (w\<lparr>trace := trace w @ [Entered content_agent_name step]\<rparr>)"
  from agent_execute_via_try [OF run [unfolded content_execute_def]]
  obtain w2 where att: "agent_try env (content_try env input_data) (content_store env input_data)
      (time_time env (ticks w)) step ?w1 = (Inr res, w2)"
    and sc: "stored_content w' = stored_content w2" by blast
  have a: "success res \<longrightarrow>
        (\<exists>d row. data res = Some d \<and> stored_content w' = stored_content w @ [row] \<and>
                 ec_content row = educational_content d)"
  proof
    assume "success res"
    from agent_try_success [OF att this] obtain d w1 where
      tb: "content_try env input_data ?w1 = (Inr d, w1)"
      and st: "content_store env input_data d (tick w1) = (Inr (), w2)"
      and d: "data res = Some d" by blast
    from keepsD [OF keeps_content_try tb, of stored_content]
    have "stored_content w1 = stored_content w" by simp
    with content_store_cases [OF st] sc d
    show "\<exists>d row. data res = Some d \<and> stored_content w' = stored_content w @ [row] \<and>
                 ec_content row = educational_content d" by auto
  qed
  have b: "(\<forall>t. db_fault env t StoreEducationalContent \<noteq> None) \<longrightarrow>
        \<not> success res \<and> data res = None \<and> error_message res \<noteq> None"
  proof
    assume f: "\<forall>t. db_fault env t StoreEducationalContent \<noteq> None"
    have "\<And>d w1. \<exists>e w2. content_store env input_data d w1 = (Inl e, w2)"
      using f by (auto simp: content_store_def store_educational_content_def db_write_def
          split: option.splits)
    from agent_try_after_fails [OF att this]
    show "\<not> success res \<and> data res = None \<and> error_message res \<noteq> None" .
  qed
  from a b show ?thesis by simp
qed

section \<open>Runs on the concrete backend\<close>

lemmas run_defs = bindE_def catchE_def returnE_def raiseE_def ask_def now_def db_write_def
  enter_def leave_def tick_def attempt_def Let_def get_or_def

lemma reliable_fields:
  "generate_educational_content reliable_backend = (\<lambda>t topic age_group language. Inr sample_script)"
  "extract_character_info reliable_backend = (\<lambda>t content. Inr [])"
  "generate_comic_poster_prompt reliable_backend = (\<lambda>t topic visual_style names. Inr (str ''cover''))"
  "generate_visual_prompt reliable_backend = (\<lambda>t c d n topic visual_style. Inr (str ''panel''))"
  "analyze_content_quality reliable_backend = (\<lambda>t content topic age_group. Inr (str ''APPROVAL: YES''))"
  "generate_text reliable_backend = (\<lambda>t topic age_group. Inr (str ''- name the planets''))"
  "search_similar_content reliable_backend = (\<lambda>t query content_type limit. Inr [])"
  "get_successful_comic_patterns reliable_backend = (\<lambda>t limit. Inr [])"
  "search_character_templates reliable_backend = (\<lambda>t query visual_style limit. Inr [])"
  "db_fault reliable_backend = (\<lambda>t op. None)"
  "time_time reliable_backend = (\<lambda>t. int t)"
  "str_upper reliable_backend = (\<lambda>s. s)"
  by (simp_all add: reliable_backend_def)

lemma refusing_fields:
  "generate_educational_content (refusing op) = (\<lambda>t topic age_group language. Inr sample_script)"
  "extract_character_info (refusing op) = (\<lambda>t content. Inr [])"
  "generate_comic_poster_prompt (refusing op) = (\<lambda>t topic visual_style names. Inr (str ''cover''))"
  "generate_visual_prompt (refusing op) = (\<lambda>t c d n topic visual_style. Inr (str ''panel''))"
  "analyze_content_quality (refusing op) = (\<lambda>t content topic age_group. Inr (str ''APPROVAL: YES''))"
  "generate_text (refusing op) = (\<lambda>t topic age_group. Inr (str ''- name the planets''))"
  "search_similar_content (refusing op) = (\<lambda>t query content_type limit. Inr [])"
  "get_successful_comic_patterns (refusing op) = (\<lambda>t limit. Inr [])"
  "search_character_templates (refusing op) = (\<lambda>t query visual_style limit. Inr [])"
  "db_fault (refusing op) = (\<lambda>t op'. if op' = op then Some (Exn (str ''connection lost'')) else None)"
  "time_time (refusing op) = (\<lambda>t. int t)"
  "str_upper (refusing op) = (\<lambda>s. s)"
  by (simp_all add: refusing_def reliable_backend_def)

lemmas agent_defs = content_execute_def agent_execute_def agent_try_def content_try_def
      content_store_def store_educational_content_def log_execution_def
      log_agent_execution_def

lemma scriptless_fields:
  "generate_educational_content scriptless_backend =
     (\<lambda>t topic age_group language. Inl (Exn (str ''quota exceeded'')))"
  "search_similar_content scriptless_backend = (\<lambda>t query content_type limit. Inr [])"
  "get_successful_comic_patterns scriptless_backend = (\<lambda>t limit. Inr [])"
  "db_fault scriptless_backend = (\<lambda>t op. None)"
  "time_time scriptless_backend = (\<lambda>t. int t)"
  by (simp_all add: scriptless_backend_def reliable_backend_def)

text \<open>
  The amended claim C4 on a backend whose text model refuses the script: the
  \<^verbatim>\<open>try\<close> block of the Content Intelligence Agent raises, and the agent returns
  \<^verbatim>\<open>success=False\<close> with the text of the exception.
\<close>

theorem execute_converts_exceptions_witness:
  "(\<forall>t. db_fault scriptless_backend t LogAgentExecution = None) \<and>
   fst (content_try scriptless_backend sample_request
          (tick (empty_world\<lparr>trace := trace empty_world @ [Entered content_agent_name 1]\<rparr>))) =
     Inl (Exn (str ''quota exceeded'')) \<and>
   map_sum message (\<lambda>res. (success res, error_message res))
     (fst (content_execute scriptless_backend sample_request 1 1 empty_world)) =
     Inr (False, Some (str ''quota exceeded''))"
proof -
  let ?R = "content_execute scriptless_backend sample_request 1 1 empty_world"
  let ?w0 = "tick (empty_world\<lparr>trace := trace empty_world @ [Entered content_agent_name 1]\<rparr>)"
  have f: "\<forall>t. db_fault scriptless_backend t LogAgentExecution = None"
    by (simp add: scriptless_fields)
  have t: "fst (content_try scriptless_backend sample_request ?w0) =
      Inl (Exn (str ''quota exceeded''))"
    by (simp add: content_try_def run_defs scriptless_fields sample_request_def)
  have "?R = (fst ?R, snd ?R)" by simp
  with execute_converts_exceptions [of scriptless_backend sample_request 1 1 empty_world
      "fst ?R" "snd ?R"]
  have c: "execute_contract scriptless_backend content_agent_name
      (content_try scriptless_backend sample_request)
      (content_store scriptless_backend sample_request) 1 1 empty_world (fst ?R) (snd ?R)"
    by blast
  from c f obtain res where r: "fst ?R = Inr res"
    unfolding execute_contract_def by blast
  obtain w1 where t': "content_try scriptless_backend sample_request ?w0 =
      (Inl (Exn (str ''quota exceeded'')), w1)" using t by (metis prod.collapse)
  from c r t' have "\<not> success res \<and> error_message res = Some (str ''quota exceeded'')"
    unfolding execute_contract_def by simp
  with f t r show ?thesis by simp
qed

text \<open>
  Claim C4 as stated fails: when the datastore refuses the log row, the exception
  leaves \<^verbatim>\<open>execute\<close>.
\<close>

theorem content_execute_log_failure_counterexample:
  "fst (content_execute (refusing LogAgentExecution) sample_request 1 1 empty_world) =
     Inl (Exn (str ''connection lost''))"
  by (simp add: agent_defs run_defs refusing_fields empty_world_def sample_request_def)

text \<open>
  Claim C5 as stated fails: when every backend answers and only the store operation
  raises, the agent returns a result with \<^verbatim>\<open>success=False\<close>.
\<close>

theorem content_store_failure_counterexample:
  "map_sum message success
     (fst (content_execute (refusing StoreEducationalContent) sample_request 1 1 empty_world)) =
   Inr False"
  by (simp add: agent_defs run_defs refusing_fields empty_world_def sample_request_def)

text \<open>The amended claim C5 on the backend whose store operation raises.\<close>

theorem content_store_failure_fails_agent_witness:
  "(\<forall>t. db_fault (refusing StoreEducationalContent) t StoreEducationalContent \<noteq> None) \<and>
   map_sum message success
     (fst (content_execute (refusing StoreEducationalContent) sample_request 1 1 empty_world)) =
   Inr False"
proof -
  let ?R = "content_execute (refusing StoreEducationalContent) sample_request 1 1 empty_world"
  have f: "\<forall>t. db_fault (refusing StoreEducationalContent) t StoreEducationalContent \<noteq> None"
    by (simp add: refusing_fields)
  have "\<exists>res. fst ?R = Inr res"
    by (simp add: agent_defs run_defs refusing_fields empty_world_def sample_request_def)
  then obtain res where r: "fst ?R = Inr res" by blast
  then have "?R = (Inr res, snd ?R)" by (metis prod.collapse)
  from content_store_failure_fails_agent [OF this] f have "\<not> success res" by blast
  with r f show ?thesis by simp
qed

section \<open>The prompts of the Visual Generation Agent\<close>

lemma visual_dialogues_keys:
  "visual_dialogues env vs topic n items acc w = (Inr out, w') \<Longrightarrow>
   \<exists>new. out = acc @ new \<and>
         map prompt_key new = map (\<lambda>item. (False, n, character item, dialogue item)) items"
proof (induction items arbitrary: acc w)
  case Nil
  then show ?case by (simp add: returnE_def)
next
  case (Cons item items)
  from Cons.prems obtain t p w1 where
    rest: "visual_dialogues env vs topic n items
        (acc @ [ScenePrompt n (character item) (dialogue item) p t]) w1 = (Inr out, w')"
    by (auto simp: bindE_def split: prod.splits sum.splits)
  from Cons.IH [OF rest] obtain new where
    "out = (acc @ [ScenePrompt n (character item) (dialogue item) p t]) @ new"
    "map prompt_key new = map (\<lambda>item. (False, n, character item, dialogue item)) items"
    by blast
  then show ?case
    by (intro exI [of _ "ScenePrompt n (character item) (dialogue item) p t # new"]) simp
qed

lemma visual_scenes_keys:
  "visual_scenes env vs topic ss acc w = (Inr out, w') \<Longrightarrow>
   \<exists>new. out = acc @ new \<and> map prompt_key new = scene_keys ss"
proof (induction ss arbitrary: acc w)
  case Nil
  then show ?case by (simp add: returnE_def scene_keys_def)
next
  case (Cons s ss)
  from Cons.prems obtain acc' w1 where
    d: "visual_dialogues env vs topic (scene_number s) (dialogues s) acc w = (Inr acc', w1)"
    and rest: "visual_scenes env vs topic ss acc' w1 = (Inr out, w')"
    by (auto simp: bindE_def split: prod.splits sum.splits)
  from visual_dialogues_keys [OF d] obtain new1 where
    n1: "acc' = acc @ new1"
    "map prompt_key new1 =
       map (\<lambda>item. (False, scene_number s, character item, dialogue item)) (dialogues s)"
    by blast
  from Cons.IH [OF rest] obtain new2 where
    n2: "out = acc' @ new2" "map prompt_key new2 = scene_keys ss" by blast
  from n1 n2 show ?case
    by (intro exI [of _ "new1 @ new2"]) (simp add: scene_keys_def)
qed

lemma length_scene_keys:
  "length (scene_keys ss) = sum_list (map (\<lambda>s. length (dialogues s)) ss)"
  by (induction ss) (simp_all add: scene_keys_def)

lemma visual_try_keys:
  assumes "visual_try env input_data w = (Inr vd, w')"
  shows "\<exists>rest. visual_prompts vd = PosterPrompt (poster_prompt vd) # rest \<and>
           map prompt_key rest = scene_keys (get_or (in_scenes input_data) []) \<and>
           total_prompts vd = 1 + length rest"
proof -
  let ?ss = "get_or (in_scenes input_data) []"
  from assms obtain p w1 out where
    sc: "visual_scenes env (get_or (in_visual_style input_data) (str ''comic''))
           (in_topic input_data) ?ss [PosterPrompt p] w1 = (Inr out, w')"
    and vd: "visual_prompts vd = out" "poster_prompt vd = p" "total_prompts vd = length out"
    by (auto simp: visual_try_def Let_def bindE_def returnE_def split: prod.splits sum.splits)
  from visual_scenes_keys [OF sc] obtain new where
    "out = [PosterPrompt p] @ new" "map prompt_key new = scene_keys ?ss" by blast
  with vd show ?thesis by simp
qed

text \<open>
  Claim C9.  When the Visual Generation Agent returns a result with
  \<^verbatim>\<open>success=True\<close>, its prompt list starts with one poster prompt, of scene number
  0, followed by exactly one scene prompt for every dialogue line, in the order of the
  scenes and of the lines within a scene, each with the scene number, character and
  line it was made for; the total number of prompts is 1 plus the number of dialogue
  lines of all scenes.
\<close>

theorem visual_prompts_shape:
  "visual_execute env input_data gid step w = (Inr res, w') \<Longrightarrow> success res \<Longrightarrow>
     \<exists>vd rest. data res = Some vd \<and>
       visual_prompts vd = PosterPrompt (poster_prompt vd) # rest \<and>
       vp_scene_number (PosterPrompt (poster_prompt vd)) = 0 \<and>
       map prompt_key rest = scene_keys (get_or (in_scenes input_data) []) \<and>
       total_prompts vd =
         1 + sum_list (map (\<lambda>s. length (dialogues s)) (get_or (in_scenes input_data) []))"
proof -
  assume run: "visual_execute env input_data gid step w = (Inr res, w')" and s: "success res"
  from agent_execute_via_try [OF run [unfolded visual_execute_def]] obtain w2 where
    att: "agent_try env (visual_try env input_data) (\<lambda>_. returnE ())
        (time_time env (ticks w)) step
        (tick (w\<lparr>trace := trace w @ [Entered visual_agent_name step]\<rparr>)) = (Inr res, w2)"
    by blast
  from agent_try_success [OF att s] obtain vd w1 where
    tb: "visual_try env input_data
        (tick (w\<lparr>trace := trace w @ [Entered visual_agent_name step]\<rparr>)) = (Inr vd, w1)"
    and d: "data res = Some vd" by blast
  from visual_try_keys [OF tb] obtain rest where
    "visual_prompts vd = PosterPrompt (poster_prompt vd) # rest"
    "map prompt_key rest = scene_keys (get_or (in_scenes input_data) [])"
    "total_prompts vd = 1 + length rest" by blast
  moreover from this have "length rest = length (scene_keys (get_or (in_scenes input_data) []))"
    by (metis length_map)
  ultimately show ?thesis using d by (simp add: length_scene_keys)
qed

lemmas visual_defs = visual_execute_def agent_execute_def agent_try_def visual_try_def
      log_execution_def log_agent_execution_def

text \<open>Claim C9 on two scenes with two and one dialogue lines: four prompts.\<close>

theorem visual_prompts_shape_witness:
  "map_sum message (\<lambda>res. (success res, map_option total_prompts (data res)))
     (fst (visual_execute reliable_backend sample_visual_input 1 3 empty_world)) =
   Inr (True, Some 4)"
proof -
  let ?R = "visual_execute reliable_backend sample_visual_input 1 3 empty_world"
  have "\<exists>res. fst ?R = Inr res \<and> success res"
    by (simp add: visual_defs run_defs reliable_fields empty_world_def sample_request_def
        sample_visual_input_def sample_scenes_def)
  then obtain res where r: "fst ?R = Inr res" and s: "success res" by blast
  from r have "?R = (Inr res, snd ?R)" by (metis prod.collapse)
  from visual_prompts_shape [OF this s] obtain vd where
    "data res = Some vd"
    "total_prompts vd = 1 + sum_list (map (\<lambda>s. length (dialogues s))
        (get_or (in_scenes sample_visual_input) []))" by blast
  then have "map_option total_prompts (data res) = Some 4"
    by (simp add: sample_visual_input_def sample_scenes_def get_or_def)
  with r s show ?thesis by simp
qed

section \<open>The orchestrator: how a run can go\<close>

lemma agent_execute_elim:
  assumes run: "agent_execute env name tb ar gid step w = (r, w')"
    and tb: "calm tb" and ar: "\<And>d. calm (ar d)"
  obtains
    (raised) e t where "r = Inl e" "db_fault env t LogAgentExecution = Some e"
      "trace w' = trace w @ [Entered name step]" "agent_logs w' = agent_logs w"
      "comic_generations w' = comic_generations w"
  | (failed) res where "r = Inr res" "\<not> success res" "data res = None"
      "trace w' = trace w @ [Entered name step, Returned name step False]"
      "agent_logs w' = agent_logs w @ [log_entry name gid step res]"
      "comic_generations w' = comic_generations w"
  | (succeeded) res d where "r = Inr res" "success res" "data res = Some d"
      "trace w' = trace w @ [Entered name step, Returned name step True]"
      "agent_logs w' = agent_logs w @ [log_entry name gid step res]"
      "comic_generations w' = comic_generations w"
proof -
  from agent_execute_cases [OF run tb ar] have
    cg: "comic_generations w' = comic_generations w" and
    alt: "(\<exists>e t. r = Inl e \<and> db_fault env t LogAgentExecution = Some e \<and>
            trace w' = trace w @ [Entered name step] \<and> agent_logs w' = agent_logs w) \<or>
     (\<exists>res. r = Inr res \<and>
            trace w' = trace w @ [Entered name step, Returned name step (success res)] \<and>
            agent_logs w' = agent_logs w @ [log_entry name gid step res] \<and>
            step_number res = step \<and>
            (success res \<longrightarrow> data res \<noteq> None) \<and>
            (\<not> success res \<longrightarrow> data res = None \<and> error_message res \<noteq> None))"
    by blast+
  from alt show thesis
  proof
    assume "\<exists>e t. r = Inl e \<and> db_fault env t LogAgentExecution = Some e \<and>
            trace w' = trace w @ [Entered name step] \<and> agent_logs w' = agent_logs w"
    with cg raised show thesis by blast
  next
    assume "\<exists>res. r = Inr res \<and>
            trace w' = trace w @ [Entered name step, Returned name step (success res)] \<and>
            agent_logs w' = agent_logs w @ [log_entry name gid step res] \<and>
            step_number res = step \<and>
            (success res \<longrightarrow> data res \<noteq> None) \<and>
            (\<not> success res \<longrightarrow> data res = None \<and> error_message res \<noteq> None)"
    then obtain res where res: "r = Inr res"
      "trace w' = trace w @ [Entered name step, Returned name step (success res)]"
      "agent_logs w' = agent_logs w @ [log_entry name gid step res]"
      "success res \<longrightarrow> data res \<noteq> None"
      "\<not> success res \<longrightarrow> data res = None" by blast
    show thesis
    proof (cases "success res")
      case True
      with res obtain d where "data res = Some d" by auto
      with True res cg succeeded show thesis by simp
    next
      case False
      with res cg failed show thesis by simp
    qed
  qed
qed

lemmas content_execute_elim =
  agent_execute_elim [OF _ calm_content_try calm_content_store, consumes 1,
    case_names raised failed succeeded]
lemmas planning_execute_elim =
  agent_execute_elim [OF _ calm_planning_try calm_returnE, consumes 1,
    case_names raised failed succeeded]
lemmas visual_execute_elim =
  agent_execute_elim [OF _ calm_visual_try calm_returnE, consumes 1,
    case_names raised failed succeeded]
lemmas qa_execute_elim =
  agent_execute_elim [OF _ calm_qa_try calm_returnE, consumes 1,
    case_names raised failed succeeded]

lemma log_key_log_entry [simp]:
  "log_key (log_entry name gid k res) = (name, k, success res)"
  "al_generation_id (log_entry name gid k res) = gid"
  by (simp_all add: log_key_def log_entry_def)

lemma update_status_cases:
  "update_comic_generation_status env gid st out t w = (r, w') \<Longrightarrow>
   (\<exists>e. r = Inl e \<and> db_fault env (ticks w) (UpdateComicGenerationStatus st) = Some e \<and>
        comic_generations w' = comic_generations w \<and> trace w' = trace w \<and>
        agent_logs w' = agent_logs w) \<or>
   (r = Inr () \<and>
    comic_generations w' =
      map (\<lambda>r. if gr_id r = gid then update_row st out t r else r) (comic_generations w) \<and>
    trace w' = trace w \<and> agent_logs w' = agent_logs w)"
  by (auto simp: update_comic_generation_status_def db_write_def tick_def split: option.splits)

lemmas wf_simps = workflow_try_def bindE_def attempt_def returnE_def raiseE_def
  merge_input_def now_def Let_def

lemmas shape_simps = try_outcome_def succeeded_events_def succeeded_keys_def
  agent_names_def agent_titles_def

lemma workflow_try_progress:
  assumes run: "workflow_try env ui gid st wr0 w = (r, w')"
  shows "\<exists>p lg wr. progress_ok p \<and> trace w' = trace w @ trace_of p \<and>
           agent_logs w' = agent_logs w @ lg \<and> map log_key lg = log_keys p \<and>
           (\<forall>l \<in> set lg. al_generation_id l = gid) \<and>
           generation_id wr = generation_id wr0 \<and>
           try_outcome env gid wr0 w w' r p wr"
proof -
  obtain r1 w1 where a1: "content_execute env ui gid 1 w = (r1, w1)" by fastforce
  from a1 [unfolded content_execute_def] show ?thesis
  proof (cases rule: content_execute_elim)
    case (raised e t)
    have "workflow_try env ui gid st wr0 w = (Inl (e, wr0), w1)"
      using a1 raised(1) by (simp add: wf_simps)
    with run have "r = Inl (e, wr0)" "w' = w1" by simp_all
    with raised show ?thesis
      by (intro exI [of _ "RaisedIn 1"] exI [of _ "[]"] exI [of _ wr0])
        (auto simp: shape_simps)
  next
    case (failed res1)
    have "workflow_try env ui gid st wr0 w =
        (Inl (Exn (str ''Content Intelligence Agent failed: '' @
                   py_str_opt (error_message res1)), wr0), w1)"
      using a1 failed(1,2) by (simp add: wf_simps)
    with run have "r = Inl (Exn (str ''Content Intelligence Agent failed: '' @
                   py_str_opt (error_message res1)), wr0)" "w' = w1" by simp_all
    with failed show ?thesis
      by (intro exI [of _ "FailedIn 1"] exI [of _ "[log_entry content_agent_name gid 1 res1]"]
          exI [of _ wr0])
        (auto simp: shape_simps str_def)
  next
    case (succeeded res1 d1)
    let ?in = "ui\<lparr>in_educational_content := Some (educational_content d1),
                   in_characters := Some (characters d1), in_scenes := Some (scenes d1)\<rparr>"
    let ?wr1 = "wr0\<lparr>content_intelligence := Some d1\<rparr>"
    note s1 = succeeded
    obtain r2 w2 where a2: "planning_execute env ?in gid 2 w1 = (r2, w2)" by fastforce
    from a2 [unfolded planning_execute_def] show ?thesis
    proof (cases rule: planning_execute_elim)
      case (raised e t)
      have "workflow_try env ui gid st wr0 w = (Inl (e, ?wr1), w2)"
        using a1 s1(1,2,3) a2 raised(1) by (simp add: wf_simps)
      with run have "r = Inl (e, ?wr1)" "w' = w2" by simp_all
      with raised s1 show ?thesis
        by (intro exI [of _ "RaisedIn 2"]
            exI [of _ "[log_entry content_agent_name gid 1 res1]"] exI [of _ ?wr1])
          (auto simp: shape_simps)
    next
      case (failed res2)
      have "workflow_try env ui gid st wr0 w =
          (Inl (Exn (str ''Educational Planning Agent failed: '' @
                     py_str_opt (error_message res2)), ?wr1), w2)"
        using a1 s1(1,2,3) a2 failed(1,2) by (simp add: wf_simps)
      with run have "r = Inl (Exn (str ''Educational Planning Agent failed: '' @
                     py_str_opt (error_message res2)), ?wr1)" "w' = w2" by simp_all
      with failed s1 show ?thesis
        by (intro exI [of _ "FailedIn 2"]
            exI [of _ "[log_entry content_agent_name gid 1 res1,
                        log_entry planning_agent_name gid 2 res2]"] exI [of _ ?wr1])
          (auto simp: shape_simps str_def)
    next
      case (succeeded res2 d2)
      let ?wr2 = "?wr1\<lparr>educational_planning := Some d2\<rparr>"
      note s2 = succeeded
      obtain r3 w3 where a3: "visual_execute env ?in gid 3 w2 = (r3, w3)" by fastforce
      from a3 [unfolded visual_execute_def] show ?thesis
      proof (cases rule: visual_execute_elim)
        case (raised e t)
        have "workflow_try env ui gid st wr0 w = (Inl (e, ?wr2), w3)"
          using a1 s1(1,2,3) a2 s2(1,2,3) a3 raised(1) by (simp add: wf_simps)
        with run have "r = Inl (e, ?wr2)" "w' = w3" by simp_all
        with raised s1 s2 show ?thesis
          by (intro exI [of _ "RaisedIn 3"]
              exI [of _ "[log_entry content_agent_name gid 1 res1,
                          log_entry planning_agent_name gid 2 res2]"] exI [of _ ?wr2])
            (auto simp: shape_simps)
      next
        case (failed res3)
        have "workflow_try env ui gid st wr0 w =
            (Inl (Exn (str ''Visual Generation Agent failed: '' @
                       py_str_opt (error_message res3)), ?wr2), w3)"
          using a1 s1(1,2,3) a2 s2(1,2,3) a3 failed(1,2) by (simp add: wf_simps)
        with run have "r = Inl (Exn (str ''Visual Generation Agent failed: '' @
                       py_str_opt (error_message res3)), ?wr2)" "w' = w3" by simp_all
        with failed s1 s2 show ?thesis
          by (intro exI [of _ "FailedIn 3"]
              exI [of _ "[log_entry content_agent_name gid 1 res1,
                          log_entry planning_agent_name gid 2 res2,
                          log_entry visual_agent_name gid 3 res3]"] exI [of _ ?wr2])
            (auto simp: shape_simps str_def)
      next
        case (succeeded res3 d3)
        let ?wr3 = "?wr2\<lparr>visual_generation := Some d3\<rparr>"
        note s3 = succeeded
        obtain r4 w4 where a4: "qa_execute env ?in gid 4 w3 = (r4, w4)" by fastforce
        from a4 [unfolded qa_execute_def] show ?thesis
        proof (cases rule: qa_execute_elim)
          case (raised e t)
          have "workflow_try env ui gid st wr0 w = (Inl (e, ?wr3), w4)"
            using a1 s1(1,2,3) a2 s2(1,2,3) a3 s3(1,2,3) a4 raised(1)
            by (simp add: wf_simps)
          with run have "r = Inl (e, ?wr3)" "w' = w4" by simp_all
          with raised s1 s2 s3 show ?thesis
            by (intro exI [of _ "RaisedIn 4"]
                exI [of _ "[log_entry content_agent_name gid 1 res1,
                            log_entry planning_agent_name gid 2 res2,
                            log_entry visual_agent_name gid 3 res3]"] exI [of _ ?wr3])
              (auto simp: shape_simps)
        next
          case (failed res4)
          have "workflow_try env ui gid st wr0 w =
              (Inl (Exn (str ''Quality Assurance Agent failed: '' @
                         py_str_opt (error_message res4)), ?wr3), w4)"
            using a1 s1(1,2,3) a2 s2(1,2,3) a3 s3(1,2,3) a4 failed(1,2)
            by (simp add: wf_simps)
          with run have "r = Inl (Exn (str ''Quality Assurance Agent failed: '' @
                         py_str_opt (error_message res4)), ?wr3)" "w' = w4" by simp_all
          with failed s1 s2 s3 show ?thesis
            by (intro exI [of _ "FailedIn 4"]
                exI [of _ "[log_entry content_agent_name gid 1 res1,
                            log_entry planning_agent_name gid 2 res2,
                            log_entry visual_agent_name gid 3 res3,
                            log_entry qa_agent_name gid 4 res4]"] exI [of _ ?wr3])
              (auto simp: shape_simps str_def)
        next
          case (succeeded res4 d4)
          note s4 = succeeded
          let ?wr4 = "?wr3\<lparr>quality_assurance := Some d4\<rparr>"
          let ?wr5 = "if \<not> approval_status d4
                      then ?wr4\<lparr>quality_warning := Some (improvements_needed d4)\<rparr> else ?wr4"
          let ?total = "(time_time env (ticks w4) - st) div 1000"
          let ?lg = "[log_entry content_agent_name gid 1 res1,
                      log_entry planning_agent_name gid 2 res2,
                      log_entry visual_agent_name gid 3 res3,
                      log_entry qa_agent_name gid 4 res4]"
          obtain r5 w5 where a5: "update_comic_generation_status env gid Completed None
              (Some ?total) (tick w4) = (r5, w5)" by fastforce
          have tr4: "trace w4 = trace w @ succeeded_events"
            using s1 s2 s3 s4 by (simp add: succeeded_events_def)
          have lg4: "agent_logs w4 = agent_logs w @ ?lg" using s1 s2 s3 s4 by simp
          have cg4: "comic_generations w4 = comic_generations w" using s1 s2 s3 s4 by simp
          have keys: "map log_key ?lg = succeeded_keys"
            using s1 s2 s3 s4 by (simp add: succeeded_keys_def)
          from update_status_cases [OF a5] show ?thesis
          proof
            assume "\<exists>e. r5 = Inl e \<and>
              db_fault env (ticks (tick w4)) (UpdateComicGenerationStatus Completed) = Some e \<and>
              comic_generations w5 = comic_generations (tick w4) \<and> trace w5 = trace (tick w4) \<and>
              agent_logs w5 = agent_logs (tick w4)"
            then obtain e where e: "r5 = Inl e"
              "db_fault env (ticks (tick w4)) (UpdateComicGenerationStatus Completed) = Some e"
              "comic_generations w5 = comic_generations w4" "trace w5 = trace w4"
              "agent_logs w5 = agent_logs w4" by auto
            have "workflow_try env ui gid st wr0 w = (Inl (e, ?wr5), w5)"
              using a1 s1(1,2,3) a2 s2(1,2,3) a3 s3(1,2,3) a4 s4(1,2,3) a5 e(1)
              by (simp add: wf_simps Let_def)
            with run have "r = Inl (e, ?wr5)" "w' = w5" by simp_all
            with e tr4 lg4 cg4 keys show ?thesis
              by (intro exI [of _ AllSucceeded] exI [of _ ?lg] exI [of _ ?wr5])
                (auto simp: try_outcome_def)
          next
            assume u: "r5 = Inr () \<and>
              comic_generations w5 =
                map (\<lambda>r. if gr_id r = gid then update_row Completed None (Some ?total) r else r)
                  (comic_generations (tick w4)) \<and>
              trace w5 = trace (tick w4) \<and> agent_logs w5 = agent_logs (tick w4)"
            let ?wr6 = "?wr5\<lparr>execution_summary := Some
                \<lparr>total_time_seconds = ?total, steps_completed = Some 4,
                 agents_executed = Some 4, summary_status = Completed,
                 summary_error_message = None\<rparr>\<rparr>"
            have "workflow_try env ui gid st wr0 w = (Inr ?wr6, w5)"
              using a1 s1(1,2,3) a2 s2(1,2,3) a3 s3(1,2,3) a4 s4(1,2,3) a5 u
              by (simp add: wf_simps Let_def)
            with run have "r = Inr ?wr6" "w' = w5" by simp_all
            with u tr4 lg4 cg4 keys show ?thesis
              by (intro exI [of _ AllSucceeded] exI [of _ ?lg] exI [of _ ?wr6])
                (auto simp: try_outcome_def)
          qed
        qed
      qed
    qed
  qed
qed

lemma fold_max_ge: "fold max xs (a::nat) \<ge> a"
  by (induction xs arbitrary: a) (auto intro: order_trans [OF max.cobounded2])

lemma fold_max_mem: "x \<in> set xs \<Longrightarrow> x \<le> fold max xs (a::nat)"
proof (induction xs arbitrary: a)
  case Nil then show ?case by simp
next
  case (Cons y ys)
  show ?case
  proof (cases "x = y")
    case True
    have "max y a \<le> fold max ys (max y a)" by (rule fold_max_ge)
    with True show ?thesis by simp
  next
    case False
    with Cons show ?thesis by simp
  qed
qed

lemma status_fresh: "generation_status w (next_generation_id w) = None"
proof -
  have "\<And>r. r \<in> set (comic_generations w) \<Longrightarrow> gr_id r \<noteq> next_generation_id w"
  proof
    fix r assume "r \<in> set (comic_generations w)" "gr_id r = next_generation_id w"
    then have "next_generation_id w \<in> set (map gr_id (comic_generations w))" by force
    from fold_max_mem [OF this, of 0] show False by (simp add: next_generation_id_def)
  qed
  then show ?thesis by (auto simp: generation_status_def find_None_iff)
qed

lemma find_append:
  "find P (xs @ ys) = (case find P xs of None \<Rightarrow> find P ys | Some x \<Rightarrow> Some x)"
  by (induction xs) auto

lemma find_map_update:
  "find (\<lambda>r. gr_id r = g) (map (\<lambda>r. if gr_id r = g then update_row st out t r else r) rows) =
   map_option (update_row st out t) (find (\<lambda>r. gr_id r = g) rows)"
  by (induction rows) (auto simp: update_row_def)

lemma gr_status_update_row [simp]: "gr_status (update_row st out t r) = st"
  by (simp add: update_row_def)

lemma status_after_update:
  "comic_generations w' =
     map (\<lambda>r. if gr_id r = g then update_row st out t r else r) (comic_generations w) \<Longrightarrow>
   generation_status w g = Some st0 \<Longrightarrow> generation_status w' g = Some st"
  by (auto simp: generation_status_def find_map_update)

lemma log_comic_generation_cases:
  "log_comic_generation env u topic style lang w = (r, w') \<Longrightarrow>
   (\<exists>e. r = Inl e \<and> db_fault env (ticks w) LogComicGeneration = Some e \<and> w' = tick w) \<or>
   (r = Inr (next_generation_id w) \<and> trace w' = trace w \<and> agent_logs w' = agent_logs w \<and>
    generation_status w' (next_generation_id w) = Some Processing)"
  using status_fresh [of w]
  by (auto simp: log_comic_generation_def db_write_def Let_def generation_status_def
      find_append next_generation_id_def tick_def split: option.splits)

lemma status_cong:
  "comic_generations w' = comic_generations w \<Longrightarrow> generation_status w' g = generation_status w g"
  by (simp add: generation_status_def)

lemma execute_workflow_summary:
  assumes run: "execute_workflow env ui w = (r, w')"
  shows "(\<exists>e t. r = Inl e \<and> db_fault env t LogComicGeneration = Some e \<and>
            trace w' = trace w \<and> agent_logs w' = agent_logs w \<and>
            comic_generations w' = comic_generations w) \<or>
         (\<exists>p lg. progress_ok p \<and> trace w' = trace w @ trace_of p \<and>
            agent_logs w' = agent_logs w @ lg \<and> map log_key lg = log_keys p \<and>
            (\<forall>l \<in> set lg. al_generation_id l = next_generation_id w) \<and>
            run_outcome env (next_generation_id w) w' r p)"
proof -
  let ?gid = "next_generation_id w"
  let ?log = "log_comic_generation env (get_or (in_user_id ui) (str ''anonymous''))
      (in_topic ui) (get_or (in_visual_style ui) (str ''comic''))
      (get_or (in_language ui) (str ''en''))"
  obtain r1 w1 where a1: "?log w = (r1, w1)" by fastforce
  from log_comic_generation_cases [OF a1] show ?thesis
  proof
    assume "\<exists>e. r1 = Inl e \<and> db_fault env (ticks w) LogComicGeneration = Some e \<and> w1 = tick w"
    then obtain e where e: "r1 = Inl e" "db_fault env (ticks w) LogComicGeneration = Some e"
      "w1 = tick w" by blast
    have "execute_workflow env ui w = (Inl e, w1)"
      using a1 e(1) by (simp add: execute_workflow_def bindE_def)
    with run e show ?thesis by auto
  next
    assume ok: "r1 = Inr ?gid \<and> trace w1 = trace w \<and> agent_logs w1 = agent_logs w \<and>
      generation_status w1 ?gid = Some Processing"
    let ?st = "time_time env (ticks w1)"
    let ?wr0 = "\<lparr>generation_id = ?gid, content_intelligence = None,
        educational_planning = None, visual_generation = None, quality_assurance = None,
        quality_warning = None, error = None, execution_summary = None\<rparr>"
    obtain r2 w2 where a2: "workflow_try env ui ?gid ?st ?wr0 (tick w1) = (r2, w2)"
      by fastforce
    from workflow_try_progress [OF a2] obtain p lg wr where p:
      "progress_ok p" "trace w2 = trace (tick w1) @ trace_of p"
      "agent_logs w2 = agent_logs (tick w1) @ lg" "map log_key lg = log_keys p"
      "\<forall>l \<in> set lg. al_generation_id l = ?gid" "generation_id wr = ?gid"
      "try_outcome env ?gid ?wr0 (tick w1) w2 r2 p wr" by auto
    have st1: "generation_status (tick w1) ?gid = Some Processing"
      using ok by (simp add: generation_status_def)
    have run2: "execute_workflow env ui w =
        catchE (workflow_try env ui ?gid ?st ?wr0) (workflow_except env ?gid ?st) (tick w1)"
      using a1 ok by (simp add: execute_workflow_def bindE_def now_def)
    let ?goal = ?thesis
    have fin: "\<And>r' w''. r = r' \<Longrightarrow> w' = w'' \<Longrightarrow> trace w'' = trace w2 \<Longrightarrow>
        agent_logs w'' = agent_logs w2 \<Longrightarrow> run_outcome env ?gid w'' r' p \<Longrightarrow> ?goal"
    proof -
      fix r' w''
      assume h: "r = r'" "w' = w''" "trace w'' = trace w2" "agent_logs w'' = agent_logs w2"
        "run_outcome env ?gid w'' r' p"
      have "trace w' = trace w @ trace_of p" using h(2,3) p(2) ok by simp
      moreover have "agent_logs w' = agent_logs w @ lg" using h(2,4) p(3) ok by simp
      moreover have "run_outcome env ?gid w' r p" using h(1,2,5) by simp
      ultimately have "progress_ok p \<and> trace w' = trace w @ trace_of p \<and>
            agent_logs w' = agent_logs w @ lg \<and> map log_key lg = log_keys p \<and>
            (\<forall>l \<in> set lg. al_generation_id l = ?gid) \<and> run_outcome env ?gid w' r p"
        using p(1,4,5) by blast
      then show ?goal by blast
    qed
    show ?thesis
    proof (cases r2)
      case (Inr wr')
      with p(7) have all: "p = AllSucceeded" "wr' = wr" "error wr = None"
        "map_option summary_status (execution_summary wr) = Some Completed"
        "\<exists>t. comic_generations w2 =
           map (\<lambda>r. if gr_id r = ?gid then update_row Completed None t r else r)
             (comic_generations (tick w1))"
        by (simp_all add: try_outcome_def split: progress.splits)
      from all(5) obtain t where "comic_generations w2 =
           map (\<lambda>r. if gr_id r = ?gid then update_row Completed None t r else r)
             (comic_generations (tick w1))" by blast
      from status_after_update [OF this st1]
      have st: "generation_status w2 ?gid = Some Completed" .
      have ex: "execute_workflow env ui w = (Inr wr, w2)"
        using run2 a2 Inr all(2) by (simp add: catchE_def)
      have ro: "run_outcome env ?gid w2 (Inr wr) p"
        unfolding run_outcome_def using all(1,3,4) p(6) st by simp
      from ex run have "r = Inr wr" "w' = w2" by simp_all
      from fin [OF this refl refl ro] show ?thesis .
    next
      case (Inl ew)
      with p(7) have same: "comic_generations w2 = comic_generations (tick w1)"
        and ew: "snd ew = wr"
        and msg: "case p of FailedIn k \<Rightarrow>
           (\<exists>m. message (fst ew) = agent_titles ! (k - 1) @ str '' failed: '' @ m) | _ \<Rightarrow> True"
        by (auto simp: try_outcome_def split: progress.splits)
      from status_cong [OF same] st1 have st2: "generation_status w2 ?gid = Some Processing"
        by simp
      obtain r3 w3 where a3:
        "update_comic_generation_status env ?gid Failed None None w2 = (r3, w3)" by fastforce
      from update_status_cases [OF a3] show ?thesis
      proof
        assume "\<exists>e. r3 = Inl e \<and>
          db_fault env (ticks w2) (UpdateComicGenerationStatus Failed) = Some e \<and>
          comic_generations w3 = comic_generations w2 \<and> trace w3 = trace w2 \<and>
          agent_logs w3 = agent_logs w2"
        then obtain e where e: "r3 = Inl e"
          "db_fault env (ticks w2) (UpdateComicGenerationStatus Failed) = Some e"
          "comic_generations w3 = comic_generations w2" "trace w3 = trace w2"
          "agent_logs w3 = agent_logs w2" by blast
        have "execute_workflow env ui w = (Inl e, w3)"
          using run2 a2 Inl a3 e(1) by (simp add: catchE_def workflow_except_def bindE_def)
        with run have rw: "r = Inl e" "w' = w3" by simp_all
        from status_cong [OF e(3)] st2 have "generation_status w3 ?gid = Some Processing"
          by simp
        with e(2) have ro: "run_outcome env ?gid w3 (Inl e) p"
          unfolding run_outcome_def by blast
        from fin [OF rw e(4) e(5) ro] show ?thesis .
      next
        assume u: "r3 = Inr () \<and>
          comic_generations w3 =
            map (\<lambda>r. if gr_id r = ?gid then update_row Failed None None r else r)
              (comic_generations w2) \<and>
          trace w3 = trace w2 \<and> agent_logs w3 = agent_logs w2"
        let ?wr = "wr\<lparr>error := Some (message (fst ew)),
            execution_summary := Some
              \<lparr>total_time_seconds = (time_time env (ticks w3) - ?st) div 1000,
               steps_completed = None, agents_executed = None, summary_status = Failed,
               summary_error_message = Some (message (fst ew))\<rparr>\<rparr>"
        have "execute_workflow env ui w = (Inr ?wr, tick w3)"
          using run2 a2 Inl a3 u ew
          by (simp add: catchE_def workflow_except_def bindE_def now_def returnE_def)
        with run have rw: "r = Inr ?wr" "w' = tick w3" by simp_all
        from u have "comic_generations (tick w3) =
            map (\<lambda>r. if gr_id r = ?gid then update_row Failed None None r else r)
              (comic_generations w2)" by simp
        from status_after_update [OF this st2]
        have st: "generation_status (tick w3) ?gid = Some Failed" .
        have second: "generation_id ?wr = ?gid \<and> error ?wr = Some (message (fst ew)) \<and>
            map_option summary_status (execution_summary ?wr) = Some Failed \<and>
            generation_status (tick w3) ?gid = Some Failed \<and>
            (case p of FailedIn k \<Rightarrow>
               (\<exists>m. message (fst ew) = agent_titles ! (k - 1) @ str '' failed: '' @ m)
             | _ \<Rightarrow> True)"
          using p(6) st msg by simp
        have ro: "run_outcome env ?gid (tick w3) (Inr ?wr) p"
          unfolding run_outcome_def
          by (rule disjI2, rule disjI1, rule exI [of _ ?wr],
              rule exI [of _ "message (fst ew)"]) (use second in blast)
        have t3: "trace (tick w3) = trace w2" "agent_logs (tick w3) = agent_logs w2"
          using u by simp_all
        from fin [OF rw t3 ro] show ?thesis .
      qed
    qed
  qed
qed

section \<open>The orchestrator: the claims\<close>

lemma returned_true_4:
  "progress_ok p \<Longrightarrow> Returned name 4 True \<in> set (trace_of p) \<Longrightarrow> p = AllSucceeded"
  by (cases p) (auto simp: succeeded_events_def agent_names_def)

lemma returned_false:
  "progress_ok p \<Longrightarrow> Returned name k False \<in> set (trace_of p) \<Longrightarrow>
   \<exists>j. p = FailedIn j \<and> j \<in> {1, 2, 3, 4} \<and> k = int j \<and> name = agent_names ! (j - 1)"
  by (cases p) (auto simp: succeeded_events_def agent_names_def)

lemma entered_steps_failed:
  "j \<in> {1, 2, 3, 4} \<Longrightarrow>
   entered_steps (take (2 * (j - 1)) succeeded_events @ [Entered (agent_names ! (j - 1)) (int j)])
     = [1..int j]"
  by (auto simp: succeeded_events_def agent_names_def upto.simps)

text \<open>
  Claim C2, as amended.  The run creates its generation record under a key that no
  record had before.  Whenever \<^verbatim>\<open>execute_workflow\<close> returns, that record has the
  status \<^verbatim>\<open>completed\<close> or \<^verbatim>\<open>failed\<close>, never \<^verbatim>\<open>processing\<close>; the status agrees
  with the execution summary of the result, and the result has the key \<^verbatim>\<open>error\<close>
  exactly in the second case.  \<^verbatim>\<open>execute_workflow\<close> raises instead of returning in
  two cases only: the datastore refused to create the record, and then no record
  exists; or the datastore refused the status \<^verbatim>\<open>failed\<close> that the \<^verbatim>\<open>except\<close>
  handler writes without a guard, and then the record is left with the status
  \<^verbatim>\<open>processing\<close>.  When the datastore refuses neither of these two writes,
  \<^verbatim>\<open>execute_workflow\<close> returns.
\<close>

theorem terminal_status:
  "execute_workflow env user_input w = (r, w') \<Longrightarrow>
     generation_status w (next_generation_id w) = None \<and>
     (\<forall>wr. r = Inr wr \<longrightarrow>
        generation_id wr = next_generation_id w \<and>
        ((generation_status w' (generation_id wr) = Some Completed \<and> error wr = None \<and>
          map_option summary_status (execution_summary wr) = Some Completed) \<or>
         (generation_status w' (generation_id wr) = Some Failed \<and> error wr \<noteq> None \<and>
          map_option summary_status (execution_summary wr) = Some Failed))) \<and>
     (\<forall>e. r = Inl e \<longrightarrow>
        ((\<exists>t. db_fault env t LogComicGeneration = Some e) \<and>
         comic_generations w' = comic_generations w) \<or>
        ((\<exists>t. db_fault env t (UpdateComicGenerationStatus Failed) = Some e) \<and>
         generation_status w' (next_generation_id w) = Some Processing)) \<and>
     ((\<forall>t. db_fault env t LogComicGeneration = None \<and>
           db_fault env t (UpdateComicGenerationStatus Failed) = None) \<longrightarrow>
      (\<exists>wr. r = Inr wr))"
proof -
  assume run: "execute_workflow env user_input w = (r, w')"
  let ?gid = "next_generation_id w"
  have fresh: "generation_status w ?gid = None" by (rule status_fresh)
  from execute_workflow_summary [OF run]
  have "(\<exists>e t. r = Inl e \<and> db_fault env t LogComicGeneration = Some e \<and>
            comic_generations w' = comic_generations w) \<or>
        (\<exists>p. run_outcome env ?gid w' r p)" by blast
  then show ?thesis
  proof
    assume "\<exists>e t. r = Inl e \<and> db_fault env t LogComicGeneration = Some e \<and>
            comic_generations w' = comic_generations w"
    then obtain e t where "r = Inl e" "db_fault env t LogComicGeneration = Some e"
      "comic_generations w' = comic_generations w" by blast
    with fresh show ?thesis by auto
  next
    assume "\<exists>p. run_outcome env ?gid w' r p"
    then obtain p where "run_outcome env ?gid w' r p" ..
    then consider
      (completed) wr where "r = Inr wr" "generation_id wr = ?gid" "error wr = None"
        "map_option summary_status (execution_summary wr) = Some Completed"
        "generation_status w' ?gid = Some Completed"
    | (failed) wr msg where "r = Inr wr" "generation_id wr = ?gid" "error wr = Some msg"
        "map_option summary_status (execution_summary wr) = Some Failed"
        "generation_status w' ?gid = Some Failed"
    | (raised) e t where "r = Inl e"
        "db_fault env t (UpdateComicGenerationStatus Failed) = Some e"
        "generation_status w' ?gid = Some Processing"
      unfolding run_outcome_def by blast
    then show ?thesis
    proof cases
      case completed
      with fresh show ?thesis by simp
    next
      case failed
      with fresh show ?thesis by simp
    next
      case raised
      with fresh show ?thesis by auto
    qed
  qed
qed

text \<open>
  Claim C3.  In a run of \<^verbatim>\<open>execute_workflow\<close> in which the agents of the steps 1, 2,
  3 and 4 all return a result with \<^verbatim>\<open>success=True\<close>, the run adds exactly four rows
  to the agent log, with the step numbers 1, 2, 3, 4 in this order, each for the
  generation record of the run and with the status \<^verbatim>\<open>success\<close>.
\<close>

theorem four_log_entries:
  "execute_workflow env user_input w = (r, w') \<Longrightarrow>
   \<forall>k \<in> {1, 2, 3, 4}. \<exists>name. Returned name k True \<in> set (drop (length (trace w)) (trace w')) \<Longrightarrow>
   \<exists>l1 l2 l3 l4. agent_logs w' = agent_logs w @ [l1, l2, l3, l4] \<and>
      map al_step_number [l1, l2, l3, l4] = [1, 2, 3, 4] \<and>
      (\<forall>l \<in> set [l1, l2, l3, l4].
         al_generation_id l = next_generation_id w \<and> al_status l = LogSuccess)"
proof -
  assume run: "execute_workflow env user_input w = (r, w')"
    and all: "\<forall>k \<in> {1, 2, 3, 4}. \<exists>name.
      Returned name k True \<in> set (drop (length (trace w)) (trace w'))"
  from all obtain name where n: "Returned name 4 True \<in> set (drop (length (trace w)) (trace w'))"
    by auto
  from execute_workflow_summary [OF run] n obtain p lg where p:
    "progress_ok p" "trace w' = trace w @ trace_of p" "agent_logs w' = agent_logs w @ lg"
    "map log_key lg = log_keys p" "\<forall>l \<in> set lg. al_generation_id l = next_generation_id w"
    by auto
  from n p(2) have "Returned name 4 True \<in> set (trace_of p)" by simp
  from returned_true_4 [OF p(1) this] have "p = AllSucceeded" .
  with p(4) have "map log_key lg = succeeded_keys" by simp
  then obtain l1 l2 l3 l4 where lg: "lg = [l1, l2, l3, l4]"
    and k: "log_key l1 = (content_agent_name, 1, True)" "log_key l2 = (planning_agent_name, 2, True)"
      "log_key l3 = (visual_agent_name, 3, True)" "log_key l4 = (qa_agent_name, 4, True)"
    by (auto simp: succeeded_keys_def map_eq_Cons_conv)
  from k have "map al_step_number [l1, l2, l3, l4] = [1, 2, 3, 4]"
    "\<forall>l \<in> set [l1, l2, l3, l4]. al_status l = LogSuccess"
    by (simp_all add: log_key_def)
  with p(3,5) lg show ?thesis by auto
qed

text \<open>
  Claim C1, as amended.  When the agent of step \<open>k\<close> returns a result with
  \<^verbatim>\<open>success=False\<close>, that return is the last event of the run: the agents entered
  are those of the steps \<open>1, \<dots>, k\<close>, and none is entered afterwards.  The orchestrator
  then writes the status \<^verbatim>\<open>failed\<close>; when this write does not raise,
  \<^verbatim>\<open>execute_workflow\<close> returns a result whose \<^verbatim>\<open>error\<close> is the text
  \<^verbatim>\<open><agent> failed: <error message>\<close>, whose summary has the status \<^verbatim>\<open>failed\<close>,
  and the generation record has the status \<^verbatim>\<open>failed\<close>.  The only exception that
  can leave \<^verbatim>\<open>execute_workflow\<close> in such a run is the one raised by that status
  write, which the handler does not guard.
\<close>

theorem agent_failure_aborts:
  "execute_workflow env user_input w = (r, w') \<Longrightarrow>
   Returned name k False \<in> set (drop (length (trace w)) (trace w')) \<Longrightarrow>
     (\<exists>tr. trace w' = trace w @ tr @ [Returned name k False] \<and> entered_steps tr = [1..k]) \<and>
     (\<forall>wr. r = Inr wr \<longrightarrow>
        (\<exists>m. error wr = Some (agent_titles ! (nat k - 1) @ str '' failed: '' @ m)) \<and>
        map_option summary_status (execution_summary wr) = Some Failed \<and>
        generation_status w' (generation_id wr) = Some Failed) \<and>
     (\<forall>e. r = Inl e \<longrightarrow> (\<exists>t. db_fault env t (UpdateComicGenerationStatus Failed) = Some e)) \<and>
     ((\<forall>t. db_fault env t (UpdateComicGenerationStatus Failed) = None) \<longrightarrow> (\<exists>wr. r = Inr wr))"
proof -
  assume run: "execute_workflow env user_input w = (r, w')"
    and f: "Returned name k False \<in> set (drop (length (trace w)) (trace w'))"
  from execute_workflow_summary [OF run] f obtain p where p:
    "progress_ok p" "trace w' = trace w @ trace_of p"
    "run_outcome env (next_generation_id w) w' r p"
    by auto
  from f p(2) have "Returned name k False \<in> set (trace_of p)" by simp
  from returned_false [OF p(1) this] obtain j where j:
    "p = FailedIn j" "j \<in> {1, 2, 3, 4}" "k = int j" "name = agent_names ! (j - 1)" by blast
  let ?tr = "take (2 * (j - 1)) succeeded_events @ [Entered (agent_names ! (j - 1)) (int j)]"
  have "trace w' = trace w @ ?tr @ [Returned name k False]" using p(2) j by simp
  moreover have "entered_steps ?tr = [1..k]" using entered_steps_failed [OF j(2)] j(3) by simp
  ultimately have a: "\<exists>tr. trace w' = trace w @ tr @ [Returned name k False] \<and>
      entered_steps tr = [1..k]" by blast
  from p(3) j(1) have out:
    "(\<exists>wr msg. r = Inr wr \<and> generation_id wr = next_generation_id w \<and> error wr = Some msg \<and>
        map_option summary_status (execution_summary wr) = Some Failed \<and>
        generation_status w' (next_generation_id w) = Some Failed \<and>
        (\<exists>m. msg = agent_titles ! (j - 1) @ str '' failed: '' @ m)) \<or>
     (\<exists>e t. r = Inl e \<and> db_fault env t (UpdateComicGenerationStatus Failed) = Some e)"
    by (auto simp: run_outcome_def)
  have nk: "nat k - 1 = j - 1" using j(3) by simp
  from out have b: "\<forall>wr. r = Inr wr \<longrightarrow>
        (\<exists>m. error wr = Some (agent_titles ! (nat k - 1) @ str '' failed: '' @ m)) \<and>
        map_option summary_status (execution_summary wr) = Some Failed \<and>
        generation_status w' (generation_id wr) = Some Failed"
    unfolding nk by auto
  from out have c: "\<forall>e. r = Inl e \<longrightarrow>
      (\<exists>t. db_fault env t (UpdateComicGenerationStatus Failed) = Some e)" by auto
  from out have d: "(\<forall>t. db_fault env t (UpdateComicGenerationStatus Failed) = None) \<longrightarrow>
      (\<exists>wr. r = Inr wr)" by auto
  from a b c d show ?thesis by blast
qed


lemma scriptless_refusing_fields:
  "generate_educational_content scriptless_refusing_backend =
     (\<lambda>t topic age_group language. Inl (Exn (str ''quota exceeded'')))"
  "search_similar_content scriptless_refusing_backend = (\<lambda>t query content_type limit. Inr [])"
  "get_successful_comic_patterns scriptless_refusing_backend = (\<lambda>t limit. Inr [])"
  "db_fault scriptless_refusing_backend =
     (\<lambda>t op. if op = UpdateComicGenerationStatus Failed
              then Some (Exn (str ''connection lost'')) else None)"
  "time_time scriptless_refusing_backend = (\<lambda>t. int t)"
  by (simp_all add: scriptless_refusing_backend_def scriptless_backend_def
      reliable_backend_def)

lemmas workflow_defs = execute_workflow_def log_comic_generation_def workflow_try_def
  workflow_except_def update_comic_generation_status_def merge_input_def
  next_generation_id_def

text \<open>
  Claim C1 as stated fails: the text backend refuses the script, so the first agent
  returns a failure, and the datastore refuses the status \<^verbatim>\<open>failed\<close>; then
  \<^verbatim>\<open>execute_workflow\<close> raises instead of returning a result, and the generation
  record keeps the status \<^verbatim>\<open>processing\<close>.
\<close>

theorem agent_failure_status_write_counterexample:
  "fst (execute_workflow scriptless_refusing_backend sample_request empty_world) =
     Inl (Exn (str ''connection lost'')) \<and>
   trace (snd (execute_workflow scriptless_refusing_backend sample_request empty_world)) =
     [Entered content_agent_name 1, Returned content_agent_name 1 False] \<and>
   generation_status
     (snd (execute_workflow scriptless_refusing_backend sample_request empty_world)) 1 =
     Some Processing"
  by (simp add: workflow_defs agent_defs run_defs scriptless_refusing_fields empty_world_def
      sample_request_def generation_status_def)

text \<open>The amended claim C1 on the backend that refuses the script, with a reliable
  datastore.\<close>

theorem agent_failure_aborts_witness:
  "Returned content_agent_name 1 False \<in>
     set (drop (length (trace empty_world))
       (trace (snd (execute_workflow scriptless_backend sample_request empty_world)))) \<and>
   (\<forall>t. db_fault scriptless_backend t (UpdateComicGenerationStatus Failed) = None) \<and>
   (\<exists>wr. fst (execute_workflow scriptless_backend sample_request empty_world) = Inr wr)"
proof -
  let ?R = "execute_workflow scriptless_backend sample_request empty_world"
  have h: "Returned content_agent_name 1 False \<in>
     set (drop (length (trace empty_world)) (trace (snd ?R)))"
    by (simp add: workflow_defs agent_defs run_defs scriptless_fields empty_world_def
      sample_request_def)
  have f: "\<forall>t. db_fault scriptless_backend t (UpdateComicGenerationStatus Failed) = None"
    by (simp add: scriptless_fields)
  have "?R = (fst ?R, snd ?R)" by simp
  from agent_failure_aborts [OF this h] f have "\<exists>wr. fst ?R = Inr wr" by blast
  with h f show ?thesis by blast
qed

lemma parse_sample: "parse_educational_content sample_script = sample_scenes"
  by (simp add: parse_educational_content_def sample_script_def sample_scenes_def py_lines_def
      parse_line_def str_def py_strip_def py_isspace_def startswith_def split_once_def Let_def)

lemmas all_agent_defs = content_execute_def planning_execute_def visual_execute_def
  qa_execute_def agent_execute_def agent_try_def content_try_def planning_try_def
  visual_try_def qa_try_def content_store_def store_educational_content_def
  log_execution_def log_agent_execution_def generate_learning_objectives_def

lemma reliable_run_trace:
  "trace (snd (execute_workflow reliable_backend sample_request empty_world)) = succeeded_events"
  by (simp add: workflow_defs all_agent_defs run_defs reliable_fields empty_world_def
      sample_request_def parse_sample sample_scenes_def succeeded_events_def)

lemma reliable_run_returns:
  "\<exists>wr. fst (execute_workflow reliable_backend sample_request empty_world) = Inr wr \<and>
        error wr = None"
  by (simp add: workflow_defs all_agent_defs run_defs reliable_fields empty_world_def
      sample_request_def parse_sample sample_scenes_def)

text \<open>The amended claim C2 on the reliable backend: the datastore refuses nothing, the
  run returns and the record is \<^verbatim>\<open>completed\<close>.\<close>

theorem terminal_status_witness:
  "generation_status empty_world (next_generation_id empty_world) = None \<and>
   (\<exists>wr. fst (execute_workflow reliable_backend sample_request empty_world) = Inr wr \<and>
     generation_id wr = 1 \<and> error wr = None \<and>
     generation_status (snd (execute_workflow reliable_backend sample_request empty_world)) 1 =
       Some Completed)"
proof -
  let ?R = "execute_workflow reliable_backend sample_request empty_world"
  have f: "\<forall>t. db_fault reliable_backend t LogComicGeneration = None \<and>
      db_fault reliable_backend t (UpdateComicGenerationStatus Failed) = None"
    by (simp add: reliable_fields)
  have n: "next_generation_id empty_world = 1"
    by (simp add: next_generation_id_def empty_world_def)
  have "?R = (fst ?R, snd ?R)" by simp
  note t = terminal_status [OF this]
  from t f obtain wr where wr: "fst ?R = Inr wr" by blast
  from reliable_run_returns wr have e: "error wr = None" by auto
  from t wr e n have "generation_id wr = 1"
    "generation_status (snd ?R) 1 = Some Completed" by auto
  moreover from t have "generation_status empty_world (next_generation_id empty_world) = None"
    by blast
  ultimately show ?thesis using wr e by blast
qed

lemma status_refusing_fields:
  "generate_educational_content status_refusing_backend =
     (\<lambda>t topic age_group language. Inr sample_script)"
  "extract_character_info status_refusing_backend = (\<lambda>t content. Inr [])"
  "generate_comic_poster_prompt status_refusing_backend =
     (\<lambda>t topic visual_style names. Inr (str ''cover''))"
  "generate_visual_prompt status_refusing_backend =
     (\<lambda>t c d n topic visual_style. Inr (str ''panel''))"
  "analyze_content_quality status_refusing_backend =
     (\<lambda>t content topic age_group. Inr (str ''APPROVAL: YES''))"
  "generate_text status_refusing_backend = (\<lambda>t topic age_group. Inr (str ''- name the planets''))"
  "search_similar_content status_refusing_backend = (\<lambda>t query content_type limit. Inr [])"
  "get_successful_comic_patterns status_refusing_backend = (\<lambda>t limit. Inr [])"
  "search_character_templates status_refusing_backend = (\<lambda>t query visual_style limit. Inr [])"
  "db_fault status_refusing_backend =
     (\<lambda>t op. case op of
        UpdateComicGenerationStatus st \<Rightarrow> Some (Exn (str ''connection lost''))
      | _ \<Rightarrow> None)"
  "time_time status_refusing_backend = (\<lambda>t. int t)"
  "str_upper status_refusing_backend = (\<lambda>s. s)"
  by (simp_all add: status_refusing_backend_def reliable_backend_def)

text \<open>
  Claim C2 as stated fails: the four agents succeed, and the datastore refuses every
  update of the status.  The update to \<^verbatim>\<open>completed\<close> raises inside the \<^verbatim>\<open>try\<close>
  block, the handler's update to \<^verbatim>\<open>failed\<close> raises as well, and this exception
  leaves \<^verbatim>\<open>execute_workflow\<close>: the record of the run keeps the status
  \<^verbatim>\<open>processing\<close>.
\<close>

theorem status_write_refused_counterexample:
  "fst (execute_workflow status_refusing_backend sample_request empty_world) =
     Inl (Exn (str ''connection lost'')) \<and>
   trace (snd (execute_workflow status_refusing_backend sample_request empty_world)) =
     succeeded_events \<and>
   generation_status
     (snd (execute_workflow status_refusing_backend sample_request empty_world)) 1 =
     Some Processing"
  by (simp add: workflow_defs all_agent_defs run_defs status_refusing_fields empty_world_def
      sample_request_def parse_sample sample_scenes_def succeeded_events_def
      generation_status_def)

text \<open>Claim C3 on the reliable backend: the four agents succeed and the log holds the
  steps 1, 2, 3, 4.\<close>

theorem four_log_entries_witness:
  "Returned content_agent_name 1 True \<in>
     set (drop (length (trace empty_world))
       (trace (snd (execute_workflow reliable_backend sample_request empty_world)))) \<and>
   Returned planning_agent_name 2 True \<in>
     set (drop (length (trace empty_world))
       (trace (snd (execute_workflow reliable_backend sample_request empty_world)))) \<and>
   Returned visual_agent_name 3 True \<in>
     set (drop (length (trace empty_world))
       (trace (snd (execute_workflow reliable_backend sample_request empty_world)))) \<and>
   Returned qa_agent_name 4 True \<in>
     set (drop (length (trace empty_world))
       (trace (snd (execute_workflow reliable_backend sample_request empty_world)))) \<and>
   map al_step_number
     (agent_logs (snd (execute_workflow reliable_backend sample_request empty_world))) =
     [1, 2, 3, 4]"
proof -
  let ?R = "execute_workflow reliable_backend sample_request empty_world"
  let ?new = "set (drop (length (trace empty_world)) (trace (snd ?R)))"
  have e: "Returned content_agent_name 1 True \<in> ?new"
    "Returned planning_agent_name 2 True \<in> ?new"
    "Returned visual_agent_name 3 True \<in> ?new"
    "Returned qa_agent_name 4 True \<in> ?new"
    unfolding reliable_run_trace by (simp_all add: empty_world_def succeeded_events_def)
  then have h: "\<forall>k \<in> {1, 2, 3, 4}. \<exists>name. Returned name k True \<in> ?new" by blast
  have "?R = (fst ?R, snd ?R)" by simp
  from four_log_entries [OF this h] obtain l1 l2 l3 l4 where
    "agent_logs (snd ?R) = agent_logs empty_world @ [l1, l2, l3, l4]"
    "map al_step_number [l1, l2, l3, l4] = [1, 2, 3, 4]" by (elim exE conjE)
  then have "map al_step_number (agent_logs (snd ?R)) = [1, 2, 3, 4]"
    by (simp add: empty_world_def)
  with e show ?thesis by blast
qed

section \<open>The rendering driver: proofs\<close>































section \<open>The rendering driver: the pages of the document\<close>











section \<open>Runs of the rendering driver\<close>









end
